theory Spec2Isabelle
  imports Complex_Main "HOL-Library.Char_ord" "HOL-Library.List_Lexorder"
begin

section \<open>Python values\<close>

text \<open>
  Exceptions of the Python code are values. A function that can raise returns
  \<open>exn + 'a\<close>, with \<open>Inl\<close> for the raised exception.
\<close>

datatype exn =
    ZeroDivisionError
  | KeyError string
  | TypeError
  | ValueError string
  | OSError string
  | UnknownTimeZoneError string

text \<open>
  Python numbers. A float is idealised as an exact real or one of the three special
  values \<open>inf\<close>, \<open>-inf\<close> and \<open>nan\<close>; rounding and overflow to infinity are not part
  of the model, and a Python \<open>int\<close> used as a number (the literal \<open>0\<close>) is the real of
  the same value, so that \<open>float(x)\<close> is the identity. The strings of the code are
  byte strings here, ordered as Python orders \<open>str\<close>: lexicographically, a proper
  prefix first.
\<close>

datatype pyfloat = Fin real | PInf | NInf | NaN

fun f_eq :: "pyfloat \<Rightarrow> pyfloat \<Rightarrow> bool" where
  "f_eq NaN _ = False"
| "f_eq _ NaN = False"
| "f_eq a b = (a = b)"

fun f_lt :: "pyfloat \<Rightarrow> pyfloat \<Rightarrow> bool" where
  "f_lt NaN _ = False"
| "f_lt _ NaN = False"
| "f_lt (Fin a) (Fin b) = (a < b)"
| "f_lt (Fin a) PInf = True"
| "f_lt (Fin a) NInf = False"
| "f_lt PInf _ = False"
| "f_lt NInf NInf = False"
| "f_lt NInf _ = True"

definition f_gt :: "pyfloat \<Rightarrow> pyfloat \<Rightarrow> bool" where
  "f_gt a b = f_lt b a"

definition f_le :: "pyfloat \<Rightarrow> pyfloat \<Rightarrow> bool" where
  "f_le a b = (f_lt a b \<or> f_eq a b)"

fun f_neg :: "pyfloat \<Rightarrow> pyfloat" where
  "f_neg (Fin a) = Fin (- a)"
| "f_neg PInf = NInf"
| "f_neg NInf = PInf"
| "f_neg NaN = NaN"

fun f_abs :: "pyfloat \<Rightarrow> pyfloat" where
  "f_abs (Fin a) = Fin \<bar>a\<bar>"
| "f_abs PInf = PInf"
| "f_abs NInf = PInf"
| "f_abs NaN = NaN"

fun f_add :: "pyfloat \<Rightarrow> pyfloat \<Rightarrow> pyfloat" where
  "f_add NaN _ = NaN"
| "f_add _ NaN = NaN"
| "f_add (Fin a) (Fin b) = Fin (a + b)"
| "f_add (Fin a) b = b"
| "f_add a (Fin b) = a"
| "f_add PInf PInf = PInf"
| "f_add NInf NInf = NInf"
| "f_add PInf NInf = NaN"
| "f_add NInf PInf = NaN"

definition f_sub :: "pyfloat \<Rightarrow> pyfloat \<Rightarrow> pyfloat" where
  "f_sub a b = f_add a (f_neg b)"

text \<open>The sign of a number that is not \<open>nan\<close>: \<open>-1\<close>, \<open>0\<close> or \<open>1\<close>.\<close>

fun f_sgn :: "pyfloat \<Rightarrow> int" where
  "f_sgn (Fin a) = (if a < 0 then - 1 else if a = 0 then 0 else 1)"
| "f_sgn PInf = 1"
| "f_sgn NInf = - 1"
| "f_sgn NaN = 0"

definition f_inf_of_sign :: "int \<Rightarrow> pyfloat" where
  "f_inf_of_sign s = (if s = 0 then NaN else if s < 0 then NInf else PInf)"

fun f_mul :: "pyfloat \<Rightarrow> pyfloat \<Rightarrow> pyfloat" where
  "f_mul NaN _ = NaN"
| "f_mul _ NaN = NaN"
| "f_mul (Fin a) (Fin b) = Fin (a * b)"
| "f_mul a b = f_inf_of_sign (f_sgn a * f_sgn b)"

text \<open>
  True division of Python floats: a zero divisor raises, whatever the dividend is;
  a finite number over an infinity is zero; infinity over infinity is \<open>nan\<close>.
\<close>

fun f_div :: "pyfloat \<Rightarrow> pyfloat \<Rightarrow> exn + pyfloat" where
  "f_div a (Fin b) =
     (if b = 0 then Inl ZeroDivisionError
      else case a of
          Fin x \<Rightarrow> Inr (Fin (x / b))
        | NaN \<Rightarrow> Inr NaN
        | _ \<Rightarrow> Inr (f_inf_of_sign (f_sgn a * f_sgn (Fin b))))"
| "f_div a NaN = Inr NaN"
| "f_div (Fin x) b = Inr (Fin 0)"
| "f_div a b = Inr NaN"

text \<open>What can be stored in an observation and written to the JSON snapshot.\<close>

datatype jval = JNum pyfloat | JStr string

subsection \<open>Dictionaries\<close>

text \<open>
  A Python \<open>dict\<close> keeps its keys in insertion order, so it is an association list
  with distinct keys. Assigning to a key that is present replaces the value in place;
  a new key goes to the end.
\<close>

type_synonym ('k, 'v) dict = "('k \<times> 'v) list"

definition dict_get :: "('k, 'v) dict \<Rightarrow> 'k \<Rightarrow> 'v option" where
  "dict_get d k = map_of d k"

definition dict_keys :: "('k, 'v) dict \<Rightarrow> 'k list" where
  "dict_keys d = map fst d"

definition dict_contains :: "('k, 'v) dict \<Rightarrow> 'k \<Rightarrow> bool" where
  "dict_contains d k = (k \<in> set (dict_keys d))"

fun dict_set :: "('k, 'v) dict \<Rightarrow> 'k \<Rightarrow> 'v \<Rightarrow> ('k, 'v) dict" where
  "dict_set [] k v = [(k, v)]"
| "dict_set ((k', v') # d) k v =
     (if k' = k then (k, v) # d else (k', v') # dict_set d k v)"

fun dict_update :: "('k, 'v) dict \<Rightarrow> ('k, 'v) dict \<Rightarrow> ('k, 'v) dict" where
  "dict_update d [] = d"
| "dict_update d ((k, v) # other) = dict_update (dict_set d k v) other"

definition dict_wf :: "('k, 'v) dict \<Rightarrow> bool" where
  "dict_wf d = distinct (dict_keys d)"


section \<open>What the runtime and the operating system provide\<close>

text \<open>
  The code reads the clock, the process environment, the file system and the network.
  Their answers are inputs of the model:
  \<^item> \<open>days_ago n\<close> is \<open>(datetime.now() - timedelta(days=n)).strftime('%Y-%m-%d')\<close>,
    so that \<open>days_ago 0\<close> is today's date; the clock does not advance during one
    call, and \<open>timedelta\<close> arithmetic is taken to stay in the range of \<open>datetime\<close>;
  \<^item> \<open>now_iso\<close> is \<open>datetime.now().isoformat()\<close>;
  \<^item> \<open>now_tz tz\<close> is the current time in time zone \<open>tz\<close>, formatted with
    \<open>"%Y-%m-%d %H:%M:%S %Z"\<close>, and \<open>None\<close> where \<open>pytz\<close> does not know \<open>tz\<close>;
  \<^item> \<open>format_f n x\<close> is Python's \<open>format(x, '.nf')\<close>;
  \<^item> \<open>environ\<close> is \<open>os.environ\<close> after \<open>load_dotenv()\<close>;
  \<^item> \<open>http_post url params\<close> is the outcome of \<open>requests.post\<close> followed by
    \<open>raise_for_status\<close>;
  \<^item> \<open>write_result path\<close> is how writing the snapshot to \<open>path\<close> ends: it succeeds; an
    exception is raised before the file is open (by creating the parent directory, or by
    \<open>open\<close> itself); or an exception is raised once \<open>open(path, 'w')\<close> has truncated
    the file (by \<open>json.dump\<close>, or by closing the file). The exception comes with its
    message;
  \<^item> \<open>mkdir_error\<close> is the message of the exception that creating the default data
    directory raises, \<open>None\<close> when it raises none.
\<close>

datatype http_result = HttpOk | RequestException string | UnexpectedException string

datatype write_result = WriteOk | FailsBeforeOpen string | FailsAfterOpen string

record env =
  days_ago :: "int \<Rightarrow> string"
  now_iso :: string
  now_tz :: "string \<Rightarrow> string option"
  format_f :: "nat \<Rightarrow> pyfloat \<Rightarrow> string"
  environ :: "string \<Rightarrow> string option"
  http_post :: "string \<Rightarrow> (string, string) dict \<Rightarrow> http_result"
  write_result :: "string \<Rightarrow> write_result"
  mkdir_error :: "string option"

section \<open>The error history (utils/error\_history.py)\<close>

type_synonym entry = "(string, jval) dict"
type_synonym model_history = "(string, entry) dict"
type_synonym history = "(string, model_history) dict"

text \<open>
  The state of a file as \<open>_load_history\<close> sees it: it does not exist, it cannot be
  read, its content is not JSON (an empty or a partly written file is such), or it holds
  a snapshot.
\<close>

datatype file_state = Missing | Unreadable string | Corrupt | Snapshot history

text \<open>
  An \<open>ErrorHistoryTracker\<close> object. The constructor's arguments \<open>history_file\<close> and
  \<open>max_days\<close> are \<open>file_arg\<close> and \<open>days_arg\<close> below; the attributes keep the names.
  \<open>oid\<close> is the identity of the object (Python's \<open>id\<close>), given at construction: two
  objects are the same instance exactly when their \<open>oid\<close> is the same.
\<close>

record tracker =
  oid :: nat
  history_file :: string
  max_days :: int
  history :: history

text \<open>
  The state of the process: the module global \<open>_tracker\<close>, the next object identity,
  the files, and the records handed to \<open>logging\<close> as pairs of level and message.
\<close>

record world =
  tracker_var :: "tracker option"
  next_oid :: nat
  files :: "string \<Rightarrow> file_state"
  log_records :: "(string \<times> string) list"

definition logger :: "string \<Rightarrow> string \<Rightarrow> world \<Rightarrow> world" where
  "logger level msg w = w\<lparr>log_records := log_records w @ [(level, msg)]\<rparr>"

definition default_history_file :: string where
  "default_history_file = ''data/error_history.json''"

definition load_history :: "string \<Rightarrow> world \<Rightarrow> history \<times> world" where
  "load_history path w =
     (case files w path of
        Missing \<Rightarrow>
          ([], logger ''info'' (''No history file found at '' @ path @ ''. Creating a new one.'') w)
      | Snapshot h \<Rightarrow>
          (h, logger ''info'' (''Loaded error history from '' @ path) w)
      | Corrupt \<Rightarrow>
          ([], logger ''error''
                 (''Error decoding JSON from '' @ path @ ''. Creating a new history.'') w)
      | Unreadable msg \<Rightarrow>
          ([], logger ''error''
                 (''Error loading history file: '' @ msg @ ''. Creating a new history.'') w))"

definition ErrorHistoryTracker_init ::
  "env \<Rightarrow> string option \<Rightarrow> int \<Rightarrow> world \<Rightarrow> exn + (tracker \<times> world)" where
  "ErrorHistoryTracker_init env file_arg days_arg w =
     (let path =
        (case file_arg of
           None \<Rightarrow>
             (case mkdir_error env of
                Some msg \<Rightarrow> Inl (OSError msg)
              | None \<Rightarrow> Inr default_history_file)
         | Some p \<Rightarrow> Inr p)
      in case path of
           Inl e \<Rightarrow> Inl e
         | Inr p \<Rightarrow>
             (let (h, w') = load_history p w
              in Inr (\<lparr>oid = next_oid w, history_file = p, max_days = days_arg, history = h\<rparr>,
                      w'\<lparr>next_oid := Suc (next_oid w)\<rparr>)))"

text \<open>
  \<open>_save_history\<close>: the parent directory is created, the file is opened with mode \<open>'w'\<close>,
  which truncates it, and the history is dumped into it. An exception before the file is
  open leaves the file as it was; an exception after it leaves a file that is empty or
  partly written. Either way the exception is caught and logged, and the result is
  \<open>False\<close>.
\<close>

definition save_history :: "env \<Rightarrow> tracker \<Rightarrow> world \<Rightarrow> bool \<times> world" where
  "save_history env self w =
     (case write_result env (history_file self) of
        WriteOk \<Rightarrow>
          (True,
           logger ''info'' (''Saved error history to '' @ history_file self)
             (w\<lparr>files := (files w)(history_file self := Snapshot (history self))\<rparr>))
      | FailsBeforeOpen msg \<Rightarrow>
          (False, logger ''error'' (''Error saving history file: '' @ msg) w)
      | FailsAfterOpen msg \<Rightarrow>
          (False,
           logger ''error'' (''Error saving history file: '' @ msg)
             (w\<lparr>files := (files w)(history_file self := Corrupt)\<rparr>)))"

definition prune_old_entries :: "env \<Rightarrow> tracker \<Rightarrow> tracker" where
  "prune_old_entries env self =
     (let cutoff_date = days_ago env (max_days self)
      in self\<lparr>history :=
           map (\<lambda>(model_name, entries).
                  (model_name, filter (\<lambda>(date, entry). date \<ge> cutoff_date) entries))
               (history self)\<rparr>)"

definition new_entry :: "env \<Rightarrow> pyfloat \<Rightarrow> entry option \<Rightarrow> entry" where
  "new_entry env error_value additional_metrics =
     (let entry = [(''error'', JNum error_value), (''timestamp'', JStr (now_iso env))]
      in case additional_metrics of
           None \<Rightarrow> entry
         | Some m \<Rightarrow> if m \<noteq> [] then dict_update entry m else entry)"

definition add_error ::
  "env \<Rightarrow> tracker \<Rightarrow> world \<Rightarrow> string \<Rightarrow> pyfloat \<Rightarrow> string option \<Rightarrow> entry option
     \<Rightarrow> bool \<times> tracker \<times> world" where
  "add_error env self w model_name error_value forecast_date additional_metrics =
     (let date = (case forecast_date of None \<Rightarrow> days_ago env 0 | Some d \<Rightarrow> d);
          h0 = (if \<not> dict_contains (history self) model_name
                then dict_set (history self) model_name []
                else history self);
          entry = new_entry env error_value additional_metrics;
          entries = (case dict_get h0 model_name of None \<Rightarrow> [] | Some es \<Rightarrow> es);
          h1 = dict_set h0 model_name (dict_set entries date entry);
          self' = prune_old_entries env (self\<lparr>history := h1\<rparr>);
          (ok, w') = save_history env self' w
      in (ok, self', w'))"

definition get_model_history :: "tracker \<Rightarrow> string \<Rightarrow> model_history" where
  "get_model_history self model_name =
     (case dict_get (history self) model_name of None \<Rightarrow> [] | Some es \<Rightarrow> es)"

fun recent_entries :: "string \<Rightarrow> model_history \<Rightarrow> exn + (string \<times> jval) list" where
  "recent_entries cutoff_date [] = Inr []"
| "recent_entries cutoff_date ((date, entry) # rest) =
     (if date \<ge> cutoff_date then
        (case dict_get entry ''error'' of
           None \<Rightarrow> Inl (KeyError ''error'')
         | Some e \<Rightarrow>
             (case recent_entries cutoff_date rest of
                Inl x \<Rightarrow> Inl x
              | Inr r \<Rightarrow> Inr ((date, e) # r)))
      else recent_entries cutoff_date rest)"

definition get_recent_errors ::
  "env \<Rightarrow> tracker \<Rightarrow> string \<Rightarrow> int \<Rightarrow> exn + (string \<times> jval) list" where
  "get_recent_errors env self model_name days =
     (let model_history = get_model_history self model_name
      in if model_history = [] then Inr []
         else (case recent_entries (days_ago env days) model_history of
                 Inl x \<Rightarrow> Inl x
               | Inr r \<Rightarrow> Inr (sort_key fst r)))"

subsection \<open>Statistics\<close>

record stats =
  stat_count :: nat
  stat_min :: "pyfloat option"
  stat_max :: "pyfloat option"
  stat_avg :: "pyfloat option"
  stat_above_threshold_count :: nat

text \<open>
  Python's \<open>min\<close> and \<open>max\<close> keep the first element and replace it by a later one that
  compares strictly smaller (larger); \<open>sum\<close> starts from \<open>0\<close> and adds from the left.
\<close>

fun py_min :: "pyfloat list \<Rightarrow> exn + pyfloat" where
  "py_min [] = Inl (ValueError ''min() arg is an empty sequence'')"
| "py_min (x # xs) = Inr (foldl (\<lambda>cur y. if f_lt y cur then y else cur) x xs)"

fun py_max :: "pyfloat list \<Rightarrow> exn + pyfloat" where
  "py_max [] = Inl (ValueError ''max() arg is an empty sequence'')"
| "py_max (x # xs) = Inr (foldl (\<lambda>cur y. if f_gt y cur then y else cur) x xs)"

definition py_sum :: "pyfloat list \<Rightarrow> pyfloat" where
  "py_sum xs = foldl f_add (Fin 0) xs"

text \<open>
  The statistics are arithmetic on the stored \<open>error\<close> values; one that is not a
  number makes \<open>min\<close> or \<open>sum\<close> raise \<open>TypeError\<close>.
\<close>

fun numbers :: "jval list \<Rightarrow> exn + pyfloat list" where
  "numbers [] = Inr []"
| "numbers (JNum x # vs) = (case numbers vs of Inl e \<Rightarrow> Inl e | Inr xs \<Rightarrow> Inr (x # xs))"
| "numbers (JStr s # vs) = Inl TypeError"

definition empty_stats :: stats where
  "empty_stats =
     \<lparr>stat_count = 0, stat_min = None, stat_max = None, stat_avg = None,
      stat_above_threshold_count = 0\<rparr>"

definition statistics_of :: "pyfloat list \<Rightarrow> exn + stats" where
  "statistics_of recent_errors =
     (if recent_errors = [] then Inr empty_stats
      else
        (case py_min recent_errors of
           Inl e \<Rightarrow> Inl e
         | Inr mn \<Rightarrow>
             (case py_max recent_errors of
                Inl e \<Rightarrow> Inl e
              | Inr mx \<Rightarrow>
                  (case f_div (py_sum recent_errors) (Fin (real (length recent_errors))) of
                     Inl e \<Rightarrow> Inl e
                   | Inr av \<Rightarrow>
                       Inr \<lparr>stat_count = length recent_errors,
                            stat_min = Some mn, stat_max = Some mx, stat_avg = Some av,
                            stat_above_threshold_count =
                              length (filter (\<lambda>e. f_gt e (Fin 5.0)) recent_errors)\<rparr>))))"

definition get_error_statistics :: "env \<Rightarrow> tracker \<Rightarrow> string \<Rightarrow> int \<Rightarrow> exn + stats" where
  "get_error_statistics env self model_name days =
     (case get_recent_errors env self model_name days of
        Inl e \<Rightarrow> Inl e
      | Inr recent \<Rightarrow>
          (case numbers (map snd recent) of
             Inl e \<Rightarrow> Inl e
           | Inr recent_errors \<Rightarrow> statistics_of recent_errors))"

subsection \<open>The singleton\<close>

definition get_tracker ::
  "env \<Rightarrow> string option \<Rightarrow> int \<Rightarrow> world \<Rightarrow> exn + (tracker \<times> world)" where
  "get_tracker env file_arg days_arg w =
     (case tracker_var w of
        None \<Rightarrow>
          (case ErrorHistoryTracker_init env file_arg days_arg w of
             Inl e \<Rightarrow> Inl e
           | Inr (t, w') \<Rightarrow> Inr (t, w'\<lparr>tracker_var := Some t\<rparr>))
      | Some t \<Rightarrow> Inr (t, w))"


section \<open>The notifier (utils/telegram\_notifier.py)\<close>

record notifier =
  token :: string
  chat_id :: string
  timezone :: string

text \<open>\<open>a or b\<close> on optional strings: \<open>None\<close> and the empty string are false.\<close>

definition truthy :: "string option \<Rightarrow> bool" where
  "truthy x = (case x of None \<Rightarrow> False | Some s \<Rightarrow> s \<noteq> [])"

definition py_or :: "string option \<Rightarrow> string option \<Rightarrow> string option" where
  "py_or a b = (if truthy a then a else b)"

fun split_on :: "char \<Rightarrow> string \<Rightarrow> string list" where
  "split_on c [] = [[]]"
| "split_on c (x # xs) =
     (if x = c then [] # split_on c xs
      else (case split_on c xs of [] \<Rightarrow> [[x]] | p # ps \<Rightarrow> (x # p) # ps))"

definition validate_and_fix_token :: "notifier \<Rightarrow> world \<Rightarrow> notifier \<times> world" where
  "validate_and_fix_token self w =
     (if token self = [] then (self, w)
      else
        let (self1, w1) =
          (if count_list (token self) CHR '':'' > 1 then
             (let w' = logger ''warning''
                  ''Token format issue detected - appears to be duplicated. Attempting to fix...'' w
              in case split_on CHR '':'' (token self) of
                   p0 # p1 # rest \<Rightarrow>
                     (self\<lparr>token := p0 @ '':'' @
                        (case split_on CHR '':'' p1 of [] \<Rightarrow> [] | q # qs \<Rightarrow> q)\<rparr>,
                      logger ''info'' ''Token format fixed'' w')
                 | _ \<Rightarrow> (self, w'))
           else (self, w))
        in if CHR '':'' \<notin> set (token self1)
           then (self1, logger ''warning''
                   ''Token doesn't contain required format (numbers:letters)'' w1)
           else (self1, w1))"

definition str_of :: "string option \<Rightarrow> string" where
  "str_of x = (case x of None \<Rightarrow> [] | Some s \<Rightarrow> s)"

definition TelegramNotifier_init ::
  "env \<Rightarrow> string option \<Rightarrow> string option \<Rightarrow> string \<Rightarrow> world \<Rightarrow> (exn + notifier) \<times> world" where
  "TelegramNotifier_init env token_arg chat_id_arg timezone_arg w =
     (let tok = py_or token_arg (environ env ''TELEGRAM_BOT_TOKEN'');
          chat = py_or chat_id_arg (environ env ''TELEGRAM_CHAT_ID'')
      in if \<not> truthy tok \<or> \<not> truthy chat then
           (Inl (ValueError ''Missing Telegram token or chat_id''),
            logger ''error''
              ''Missing Telegram token or chat_id. Set TELEGRAM_BOT_TOKEN and TELEGRAM_CHAT_ID environment variables.''
              w)
         else
           (let (self, w') =
                  validate_and_fix_token
                    \<lparr>token = str_of tok, chat_id = str_of chat, timezone = timezone_arg\<rparr> w
            in (Inr self, w')))"

definition send_message :: "env \<Rightarrow> notifier \<Rightarrow> string \<Rightarrow> world \<Rightarrow> bool \<times> world" where
  "send_message env self message w =
     (let api_url = ''https://api.telegram.org/bot'' @ token self @ ''/sendMessage'';
          params = [(''chat_id'', chat_id self), (''text'', message), (''parse_mode'', ''Markdown'')];
          masked_token =
            (if length (token self) > 10
             then take 5 (token self) @ ''...'' @ drop (length (token self) - 5) (token self)
             else ''***masked***'');
          w1 = logger ''debug''
                 (''Sending request to: https://api.telegram.org/bot'' @ masked_token @ ''/sendMessage'') w
      in case http_post env api_url params of
           HttpOk \<Rightarrow>
             (True, logger ''info'' (''Message sent to Telegram chat '' @ chat_id self) w1)
         | RequestException msg \<Rightarrow>
             (False, logger ''error'' (''Failed to send Telegram message: '' @ msg) w1)
         | UnexpectedException msg \<Rightarrow>
             (False, logger ''error'' (''Unexpected error sending Telegram message: '' @ msg) w1))"

text \<open>The emoji of the four levels, as their UTF-8 bytes.\<close>

definition emoji_info :: string where
  "emoji_info = [CHR 0xE2, CHR 0x84, CHR 0xB9, CHR 0xEF, CHR 0xB8, CHR 0x8F]"

definition emoji_warning :: string where
  "emoji_warning = [CHR 0xE2, CHR 0x9A, CHR 0xA0, CHR 0xEF, CHR 0xB8, CHR 0x8F]"

definition emoji_error :: string where
  "emoji_error = [CHR 0xF0, CHR 0x9F, CHR 0x9A, CHR 0xA8]"

definition emoji_critical :: string where
  "emoji_critical = [CHR 0xF0, CHR 0x9F, CHR 0x94, CHR 0xA5]"

definition emoji_map :: "(string, string) dict" where
  "emoji_map =
     [(''info'', emoji_info), (''warning'', emoji_warning),
      (''error'', emoji_error), (''critical'', emoji_critical)]"

text \<open>\<open>str.lower\<close> on the ASCII letters, which is all the four keys are made of.\<close>

definition lower_char :: "char \<Rightarrow> char" where
  "lower_char c =
     (let n = (of_char c :: nat) in if 65 \<le> n \<and> n \<le> 90 then char_of (n + 32) else c)"

definition lower :: "string \<Rightarrow> string" where
  "lower s = map lower_char s"

definition nl :: string where
  "nl = [CHR 0x0A]"

definition format_alert ::
  "env \<Rightarrow> string \<Rightarrow> string \<Rightarrow> string option \<Rightarrow> pyfloat option \<Rightarrow> string \<Rightarrow> string" where
  "format_alert env message error_level model_name error_value timestamp =
     (let emoji = (case dict_get emoji_map (lower error_level) of
                     None \<Rightarrow> emoji_info | Some e \<Rightarrow> e);
          m0 = emoji @ '' *Load Forecasting Alert* '' @ emoji @ nl @ nl;
          m1 = (if truthy model_name
                then m0 @ ''*Model:* `'' @ str_of model_name @ ''`'' @ nl
                else m0);
          m2 = (case error_value of
                  None \<Rightarrow> m1
                | Some v \<Rightarrow> m1 @ ''*Forecast Error:* `'' @ format_f env 2 v @ ''%`'' @ nl @ nl);
          m3 = m2 @ message @ nl @ nl
      in m3 @ ''*Time:* `'' @ timestamp @ ''`'')"

definition send_alert ::
  "env \<Rightarrow> notifier \<Rightarrow> string \<Rightarrow> string \<Rightarrow> string option \<Rightarrow> pyfloat option \<Rightarrow> world
     \<Rightarrow> exn + (bool \<times> world)" where
  "send_alert env self message error_level model_name error_value w =
     (case now_tz env (timezone self) of
        None \<Rightarrow> Inl (UnknownTimeZoneError (timezone self))
      | Some timestamp \<Rightarrow>
          Inr (send_message env self
                 (format_alert env message error_level model_name error_value timestamp) w))"

section \<open>The alert policy (Models/scheduler.py)\<close>

text \<open>
  What the notification branch of \<open>evaluate_forecast_and_notify\<close> did: it was not
  entered; an exception was caught by its \<open>except Exception\<close>; or \<open>send_alert\<close> was
  called with this message and level and returned this value. The lines the function
  prints to the console are not modelled.
\<close>

datatype notification =
    NoAlert
  | NotifyFailed exn
  | AlertSent string string bool

definition error_pct_of :: "pyfloat \<Rightarrow> pyfloat \<Rightarrow> exn + pyfloat" where
  "error_pct_of actual_value predicted_value =
     (if f_eq actual_value (Fin 0)
      then Inr (if \<not> f_eq predicted_value (Fin 0) then PInf else Fin 0)
      else (case f_div (f_sub actual_value predicted_value) actual_value of
              Inl e \<Rightarrow> Inl e
            | Inr q \<Rightarrow> Inr (f_mul (f_abs q) (Fin 100))))"

text \<open>
  The first \<open>try\<close> block: the observation goes to the singleton tracker and the 7-day
  statistics are read back. An exception leaves \<open>stats\<close> at its default (which has no
  key \<open>above_threshold_count\<close>; the function never reads it), and what the block did
  before it stays done. The tracker that \<open>get_tracker\<close> returns is the object
  in \<open>_tracker\<close>, so its mutation is written back there.
\<close>

definition default_stats :: stats where
  "default_stats = empty_stats"

definition save_error_to_history ::
  "env \<Rightarrow> pyfloat \<Rightarrow> pyfloat \<Rightarrow> string \<Rightarrow> string \<Rightarrow> pyfloat \<Rightarrow> world \<Rightarrow> stats \<times> world" where
  "save_error_to_history env actual_value predicted_value model_name forecast_date error_pct w =
     (case get_tracker env None 30 w of
        Inl e \<Rightarrow> (default_stats, w)
      | Inr (tracker, w1) \<Rightarrow>
          (let additional_metrics =
                 [(''actual'', JNum actual_value),
                  (''predicted'', JNum predicted_value),
                  (''abs_error'', JNum (f_abs (f_sub actual_value predicted_value)))];
               (ok, tracker', w2) =
                 add_error env tracker w1 model_name error_pct (Some forecast_date)
                   (Some additional_metrics);
               w3 = w2\<lparr>tracker_var := Some tracker'\<rparr>
           in case get_error_statistics env tracker' model_name 7 of
                Inl e \<Rightarrow> (default_stats, w3)
              | Inr st \<Rightarrow> (st, w3)))"

definition trend_message :: "env \<Rightarrow> pyfloat \<Rightarrow> stats \<Rightarrow> string \<Rightarrow> exn + string" where
  "trend_message env error_pct st message =
     (case stat_avg st of
        None \<Rightarrow> Inr message
      | Some avg \<Rightarrow>
          if f_gt error_pct (f_mul avg (Fin 1.5)) then
            (case f_div error_pct avg of
               Inl e \<Rightarrow> Inl e
             | Inr ratio \<Rightarrow>
                 Inr (message @ nl @ nl @ ''This error is '' @ format_f env 1 ratio
                      @ ''x higher than the 7-day average ('' @ format_f env 2 avg @ ''%).''))
          else Inr message)"

definition notify :: "env \<Rightarrow> pyfloat \<Rightarrow> string \<Rightarrow> stats \<Rightarrow> world \<Rightarrow> notification \<times> world" where
  "notify env error_pct model_name st w =
     (if f_gt error_pct (Fin 5.0) then
        (case TelegramNotifier_init env None None ''Asia/Kolkata'' w of
           (Inl e, w1) \<Rightarrow> (NotifyFailed e, w1)
         | (Inr notifier, w1) \<Rightarrow>
             (let (level, message) =
                    (if f_gt error_pct (Fin 10.0)
                     then (''critical'',
                           ''Critical forecast deviation detected. Immediate review required.'')
                     else (''error'',
                           ''Forecast error exceeds acceptable threshold. Manual review recommended.''))
              in case trend_message env error_pct st message of
                   Inl e \<Rightarrow> (NotifyFailed e, w1)
                 | Inr message' \<Rightarrow>
                     (case send_alert env notifier message' level (Some model_name)
                             (Some error_pct) w1 of
                        Inl e \<Rightarrow> (NotifyFailed e, w1)
                      | Inr (delivered, w2) \<Rightarrow> (AlertSent message' level delivered, w2))))
      else (NoAlert, w))"

definition evaluate_forecast_and_notify ::
  "env \<Rightarrow> pyfloat \<Rightarrow> pyfloat \<Rightarrow> string \<Rightarrow> string option \<Rightarrow> world
     \<Rightarrow> exn + (pyfloat \<times> notification \<times> world)" where
  "evaluate_forecast_and_notify env actual_value predicted_value model_name forecast_date w =
     (case error_pct_of actual_value predicted_value of
        Inl e \<Rightarrow> Inl e
      | Inr error_pct \<Rightarrow>
          (let date = (case forecast_date of None \<Rightarrow> days_ago env 0 | Some d \<Rightarrow> d);
               (st, w1) = save_error_to_history env actual_value predicted_value model_name
                            date error_pct w;
               (sent, w2) = notify env error_pct model_name st w1
           in Inr (error_pct, sent, w2)))"


section \<open>Observations, the specification's formula, and example inputs\<close>

text \<open>The value a call of \<open>evaluate_forecast_and_notify\<close> returns to its caller.\<close>

definition returned :: "exn + (pyfloat \<times> notification \<times> world) \<Rightarrow> exn + pyfloat" where
  "returned r = (case r of Inl e \<Rightarrow> Inl e | Inr (error_pct, sent, w) \<Rightarrow> Inr error_pct)"

text \<open>
  The formula in the words of the specification,
  \<open>|actual - predicted| / actual * 100\<close>, and the same with \<open>|actual|\<close> as the divisor.
\<close>

definition spec_error_pct :: "pyfloat \<Rightarrow> pyfloat \<Rightarrow> exn + pyfloat" where
  "spec_error_pct actual predicted =
     (case f_div (f_abs (f_sub actual predicted)) actual of
        Inl e \<Rightarrow> Inl e
      | Inr q \<Rightarrow> Inr (f_mul q (Fin 100)))"

definition abs_error_pct :: "pyfloat \<Rightarrow> pyfloat \<Rightarrow> exn + pyfloat" where
  "abs_error_pct actual predicted =
     (case f_div (f_abs (f_sub actual predicted)) (f_abs actual) of
        Inl e \<Rightarrow> Inl e
      | Inr q \<Rightarrow> Inr (f_mul q (Fin 100)))"

text \<open>
  What a call of \<open>add_error\<close> leaves behind: the value it returns, the tracker object
  after it, and the world after it.
\<close>

definition succeeded :: "bool \<times> tracker \<times> world \<Rightarrow> bool" where
  "succeeded r = fst r"

definition tracker_after :: "bool \<times> tracker \<times> world \<Rightarrow> tracker" where
  "tracker_after r = fst (snd r)"

definition world_after :: "bool \<times> tracker \<times> world \<Rightarrow> world" where
  "world_after r = snd (snd r)"

text \<open>The date under which a call of \<open>add_error\<close> files its observation.\<close>

definition call_date :: "env \<Rightarrow> string option \<Rightarrow> string" where
  "call_date env forecast_date = (case forecast_date of None \<Rightarrow> days_ago env 0 | Some d \<Rightarrow> d)"

text \<open>\<open>tracker.get_model_history(model_name).get(date)\<close>.\<close>

definition stored_observation :: "tracker \<Rightarrow> string \<Rightarrow> string \<Rightarrow> entry option" where
  "stored_observation self model_name date = dict_get (get_model_history self model_name) date"

text \<open>
  The history is a \<open>dict\<close> of \<open>dict\<close>s: no model name and, under one model, no date
  occurs twice as a key. This holds of the empty history and of whatever \<open>json.load\<close>
  returns.
\<close>

definition history_wf :: "history \<Rightarrow> bool" where
  "history_wf h = (dict_wf h \<and> list_all (\<lambda>(model_name, entries). dict_wf entries) h)"

text \<open>
  The history that \<open>add_error\<close> leaves in memory: the observation is written under
  its key, then every model is pruned.
\<close>

definition history_after ::
  "env \<Rightarrow> tracker \<Rightarrow> string \<Rightarrow> pyfloat \<Rightarrow> string option \<Rightarrow> entry option \<Rightarrow> history" where
  "history_after env self model_name error_value forecast_date additional_metrics =
     map (\<lambda>(m, es). (m, filter (\<lambda>(d, e). days_ago env (max_days self) \<le> d) es))
       (dict_set (history self) model_name
          (dict_set (get_model_history self model_name) (call_date env forecast_date)
             (new_entry env error_value additional_metrics)))"

text \<open>
  A sequence of \<open>add_error\<close> calls on one tracker, each with the environment it runs
  in and its arguments.
\<close>

type_synonym call = "env \<times> string \<times> pyfloat \<times> string option \<times> entry option"

fun add_errors :: "tracker \<Rightarrow> world \<Rightarrow> call list \<Rightarrow> tracker \<times> world" where
  "add_errors self w [] = (self, w)"
| "add_errors self w ((env, model_name, error_value, forecast_date, metrics) # calls) =
     (let r = add_error env self w model_name error_value forecast_date metrics
      in add_errors (tracker_after r) (world_after r) calls)"

text \<open>How many observations the history of a tracker holds for a model and a date.\<close>

definition observations :: "tracker \<Rightarrow> string \<Rightarrow> string \<Rightarrow> nat" where
  "observations self model_name date =
     length (filter (\<lambda>(d, e). d = date) (get_model_history self model_name))"

text \<open>
  The arithmetic mean in the words of the specification, the sum of the entries over
  their number, for a window that may hold the infinities that the data model permits:
  the sum of a window with \<open>+inf\<close> is \<open>+inf\<close>, with \<open>-inf\<close> it is \<open>-inf\<close>, with both or
  with a \<open>nan\<close> it is \<open>nan\<close>, and so is the mean.
\<close>

fun finite_value :: "pyfloat \<Rightarrow> real" where
  "finite_value (Fin r) = r"
| "finite_value x = 0"

definition spec_sum :: "pyfloat list \<Rightarrow> pyfloat" where
  "spec_sum es =
     (if NaN \<in> set es \<or> (PInf \<in> set es \<and> NInf \<in> set es) then NaN
      else if PInf \<in> set es then PInf
      else if NInf \<in> set es then NInf
      else Fin (sum_list (map finite_value es)))"

definition arithmetic_mean :: "pyfloat list \<Rightarrow> pyfloat" where
  "arithmetic_mean es =
     (case spec_sum es of Fin s \<Rightarrow> Fin (s / real (length es)) | x \<Rightarrow> x)"



text \<open>The keys of the metrics a caller supplies, none when it supplies no mapping.\<close>

definition metrics_keys :: "entry option \<Rightarrow> string list" where
  "metrics_keys additional_metrics =
     (case additional_metrics of None \<Rightarrow> [] | Some m \<Rightarrow> dict_keys m)"

text \<open>
  What the rest of the program does with the module between two calls of
  \<open>get_tracker\<close>: it calls \<open>get_tracker\<close>, it calls \<open>add_error\<close> on the tracker that
  \<open>get_tracker()\<close> returns, or it calls \<open>evaluate_forecast_and_notify\<close>. Nothing else in
  the repository assigns \<open>_tracker\<close> or the attributes of the tracker. A call that raises
  leaves the world as it was.
\<close>

datatype api_call =
    Get_tracker env "string option" int
  | Add_error env string pyfloat "string option" "entry option"
  | Evaluate env pyfloat pyfloat string "string option"

fun step :: "api_call \<Rightarrow> world \<Rightarrow> world" where
  "step (Get_tracker env file_arg days_arg) w =
     (case get_tracker env file_arg days_arg w of Inl e \<Rightarrow> w | Inr (t, w') \<Rightarrow> w')"
| "step (Add_error env model_name error_value forecast_date metrics) w =
     (case get_tracker env None 30 w of
        Inl e \<Rightarrow> w
      | Inr (t, w1) \<Rightarrow>
          (let r = add_error env t w1 model_name error_value forecast_date metrics
           in (world_after r)\<lparr>tracker_var := Some (tracker_after r)\<rparr>))"
| "step (Evaluate env actual_value predicted_value model_name forecast_date) w =
     (case evaluate_forecast_and_notify env actual_value predicted_value model_name
             forecast_date w of
        Inl e \<Rightarrow> w
      | Inr (error_pct, sent, w') \<Rightarrow> w')"

fun run :: "api_call list \<Rightarrow> world \<Rightarrow> world" where
  "run [] w = w"
| "run (c # cs) w = run cs (step c w)"

text \<open>The metrics that \<open>evaluate_forecast_and_notify\<close> hands to \<open>add_error\<close>.\<close>

definition forecast_metrics :: "pyfloat \<Rightarrow> pyfloat \<Rightarrow> entry" where
  "forecast_metrics actual_value predicted_value =
     [(''actual'', JNum actual_value),
      (''predicted'', JNum predicted_value),
      (''abs_error'', JNum (f_abs (f_sub actual_value predicted_value)))]"

text \<open>Two worlds that differ in the log records at most.\<close>

definition same_but_log :: "world \<Rightarrow> world \<Rightarrow> bool" where
  "same_but_log w w' =
     (tracker_var w' = tracker_var w \<and> next_oid w' = next_oid w \<and> files w' = files w)"

text \<open>
  That \<open>_tracker\<close> holds the instance \<open>t\<close>: an object with the identity, the storage
  path and the retention window of \<open>t\<close>.
\<close>

definition holds_instance :: "tracker \<Rightarrow> world \<Rightarrow> bool" where
  "holds_instance t w =
     (case tracker_var w of
        None \<Rightarrow> False
      | Some t' \<Rightarrow>
          oid t' = oid t \<and> history_file t' = history_file t \<and> max_days t' = max_days t)"

text \<open>Identity, storage path and retention window of the tracker a call returns.\<close>

definition instance_of :: "exn + (tracker \<times> world) \<Rightarrow> (nat \<times> string \<times> int) option" where
  "instance_of r =
     (case r of Inl e \<Rightarrow> None | Inr (t, w) \<Rightarrow> Some (oid t, history_file t, max_days t))"

text \<open>
  What the notification branch of a call did, and the level of the alert it sent, if it
  sent one.
\<close>

definition notification_of :: "exn + (pyfloat \<times> notification \<times> world) \<Rightarrow> notification" where
  "notification_of r = (case r of Inl e \<Rightarrow> NoAlert | Inr (error_pct, sent, w) \<Rightarrow> sent)"


text \<open>
  Calendar dates as year, month and day, and \<open>strftime('%Y-%m-%d')\<close> of a date: four
  digits, two digits and two digits, zero padded. A date is valid for it when its year
  has four digits. One date is earlier than another in the order of the calendar.
\<close>

definition digit_char :: "nat \<Rightarrow> char" where
  "digit_char n = char_of (48 + n)"

definition pad2 :: "nat \<Rightarrow> string" where
  "pad2 n = [digit_char (n div 10), digit_char (n mod 10)]"

definition pad4 :: "nat \<Rightarrow> string" where
  "pad4 n = pad2 (n div 100) @ pad2 (n mod 100)"

definition strftime_ymd :: "nat \<times> nat \<times> nat \<Rightarrow> string" where
  "strftime_ymd date = (case date of (y, m, d) \<Rightarrow> pad4 y @ ''-'' @ pad2 m @ ''-'' @ pad2 d)"

definition valid_date :: "nat \<times> nat \<times> nat \<Rightarrow> bool" where
  "valid_date date =
     (case date of (y, m, d) \<Rightarrow>
        1000 \<le> y \<and> y \<le> 9999 \<and> 1 \<le> m \<and> m \<le> 12 \<and> 1 \<le> d \<and> d \<le> 31)"

definition earlier :: "nat \<times> nat \<times> nat \<Rightarrow> nat \<times> nat \<times> nat \<Rightarrow> bool" where
  "earlier a b =
     (case a of (y, m, d) \<Rightarrow> case b of (y', m', d') \<Rightarrow>
        y < y' \<or> (y = y' \<and> (m < m' \<or> (m = m' \<and> d < d'))))"

text \<open>
  An environment for the examples: the third of November 2026, credentials set, the
  network up and the disk writable.
\<close>

definition example_env :: env where
  "example_env =
     \<lparr>days_ago = (\<lambda>n. if n = 0 then ''2026-11-03'' else if n = 7 then ''2026-10-27''
                        else if n = 30 then ''2026-10-04'' else ''1970-01-01''),
      now_iso = ''2026-11-03T00:15:00'',
      now_tz = (\<lambda>tz. if tz = ''Asia/Kolkata'' then Some ''2026-11-03 05:45:00 IST'' else None),
      format_f = (\<lambda>n x. ''#''),
      environ = (\<lambda>k. if k = ''TELEGRAM_BOT_TOKEN'' then Some ''12345:abcdefgh''
                      else if k = ''TELEGRAM_CHAT_ID'' then Some ''42'' else None),
      http_post = (\<lambda>url params. HttpOk),
      write_result = (\<lambda>path. WriteOk),
      mkdir_error = None\<rparr>"

definition example_world :: world where
  "example_world =
     \<lparr>tracker_var = None, next_oid = 0, files = (\<lambda>path. Missing), log_records = []\<rparr>"

text \<open>
  A tracker with four observations of one model: one of the first of September, older
  than thirty days on the day of \<open>example_env\<close>, and three of the last days.
\<close>

definition observation :: "real \<Rightarrow> string \<Rightarrow> entry" where
  "observation e stamp = [(''error'', JNum (Fin e)), (''timestamp'', JStr stamp)]"

definition example_tracker :: tracker where
  "example_tracker =
     \<lparr>oid = 0, history_file = ''data/error_history.json'', max_days = 30,
      history =
        [(''ARIMA'',
          [(''2026-09-01'', observation 2 ''2026-09-02T00:15:00''),
           (''2026-10-31'', observation 3 ''2026-11-01T00:15:00''),
           (''2026-11-01'', observation 7 ''2026-11-02T00:15:00''),
           (''2026-11-02'', observation 12 ''2026-11-03T00:15:00'')])]\<rparr>"

text \<open>
  A tracker whose window holds an infinite error, as a forecast for an actual value of
  zero leaves it.
\<close>

definition example_tracker_infinite :: tracker where
  "example_tracker_infinite =
     \<lparr>oid = 0, history_file = ''data/error_history.json'', max_days = 30,
      history =
        [(''ARIMA'',
          [(''2026-11-01'', observation 3 ''2026-11-02T00:15:00''),
           (''2026-11-02'',
            [(''error'', JNum PInf), (''timestamp'', JStr ''2026-11-03T00:15:00'')])])]\<rparr>"

text \<open>The same day with a full disk: the file is opened and the write fails.\<close>

definition example_env_disk_full :: env where
  "example_env_disk_full =
     example_env\<lparr>write_result :=
       (\<lambda>path. FailsAfterOpen ''[Errno 28] No space left on device'')\<rparr>"


text \<open>The same day with the network down, and a notifier with the example credentials.\<close>

definition example_env_network_down :: env where
  "example_env_network_down =
     example_env\<lparr>http_post := (\<lambda>url params. RequestException ''Connection refused'')\<rparr>"

definition example_notifier :: notifier where
  "example_notifier = \<lparr>token = ''12345:abcdefgh'', chat_id = ''42'', timezone = ''Asia/Kolkata''\<rparr>"


text \<open>The tracker and the world after the first \<open>get_tracker()\<close> of the example.\<close>

definition example_singleton :: tracker where
  "example_singleton =
     \<lparr>oid = 0, history_file = ''data/error_history.json'', max_days = 30, history = []\<rparr>"

definition example_world_1 :: world where
  "example_world_1 =
     \<lparr>tracker_var = Some example_singleton, next_oid = Suc 0, files = (\<lambda>path. Missing),
      log_records =
        [(''info'', ''No history file found at data/error_history.json. Creating a new one.'')]\<rparr>"

text \<open>
  A world whose tracker holds one observation of the day before, with an error of zero.
\<close>

definition example_world_zero_average :: world where
  "example_world_zero_average =
     \<lparr>tracker_var =
        Some (example_singleton\<lparr>history :=
                [(''ARIMA'', [(''2026-11-02'', observation 0 ''2026-11-03T00:10:00'')])]\<rparr>),
      next_oid = Suc 0, files = (\<lambda>path. Missing), log_records = []\<rparr>"

section \<open>Properties\<close>

subsection \<open>The percentage error\<close>

lemma returned_evaluate:
  "returned (evaluate_forecast_and_notify env a p m d w) = error_pct_of a p"
  by (simp add: returned_def evaluate_forecast_and_notify_def split: sum.splits prod.splits)

lemma error_pct_of_zero:
  "f_eq a (Fin 0) \<Longrightarrow> error_pct_of a p = Inr (if f_eq p (Fin 0) then Fin 0 else PInf)"
  by (simp add: error_pct_of_def)

lemma error_pct_of_abs:
  "\<not> f_eq a (Fin 0) \<Longrightarrow> error_pct_of a p = abs_error_pct a p"
  by (cases a; cases p)
     (auto simp: error_pct_of_def abs_error_pct_def f_sub_def f_inf_of_sign_def abs_mult)

lemma abs_error_pct_returns:
  "\<not> f_eq a (Fin 0) \<Longrightarrow> \<exists>v. abs_error_pct a p = Inr v"
  by (cases a; cases p)
     (auto simp: abs_error_pct_def f_sub_def f_inf_of_sign_def)

lemma abs_error_pct_positive:
  "f_lt (Fin 0) a \<Longrightarrow> abs_error_pct a p = spec_error_pct a p"
  by (cases a; cases p)
     (auto simp: spec_error_pct_def abs_error_pct_def f_sub_def f_inf_of_sign_def)

lemma f_abs_neg: "f_abs (f_neg x) = f_abs x"
  by (cases x) auto

lemma abs_error_pct_swap:
  "f_sub a p' = f_neg (f_sub a p) \<Longrightarrow> abs_error_pct a p' = abs_error_pct a p"
  by (simp add: abs_error_pct_def f_abs_neg)

text \<open>
  C3. With an actual value equal to zero the call does not raise: it returns \<open>0\<close> when
  the predicted value equals zero too, and \<open>+inf\<close> when it does not.
\<close>

theorem C3_zero_actual_saturates:
  "f_eq actual_value (Fin 0) \<Longrightarrow>
   returned (evaluate_forecast_and_notify env actual_value predicted_value model_name
               forecast_date w)
   = Inr (if f_eq predicted_value (Fin 0) then Fin 0 else PInf)"
  by (simp add: returned_evaluate error_pct_of_zero)

theorem C3_zero_actual_saturates_witness:
  "f_eq (Fin 0) (Fin 0) \<and>
   returned (evaluate_forecast_and_notify example_env (Fin 0) (Fin 5) ''ARIMA'' None
               example_world) = Inr PInf \<and>
   returned (evaluate_forecast_and_notify example_env (Fin 0) (Fin 0) ''ARIMA'' None
               example_world) = Inr (Fin 0)"
  using C3_zero_actual_saturates [of "Fin 0" example_env "Fin 5" "''ARIMA''" None example_world]
        C3_zero_actual_saturates [of "Fin 0" example_env "Fin 0" "''ARIMA''" None example_world]
  by simp

text \<open>
  C4, as the claim states it, fails for a negative actual value: the code takes the
  absolute value of the whole quotient, so for actual \<open>-10\<close> and predicted \<open>-5\<close> it
  returns \<open>50\<close>, where \<open>|actual - predicted| / actual * 100\<close> is \<open>-50\<close>.
\<close>

theorem C4_negative_actual_counterexample:
  "returned (evaluate_forecast_and_notify example_env (Fin (- 10)) (Fin (- 5)) ''ARIMA'' None
               example_world) = Inr (Fin 50)
   \<and> spec_error_pct (Fin (- 10)) (Fin (- 5)) = Inr (Fin (- 50))
   \<and> returned (evaluate_forecast_and_notify example_env (Fin (- 10)) (Fin (- 5)) ''ARIMA'' None
               example_world) \<noteq> spec_error_pct (Fin (- 10)) (Fin (- 5))"
  by (simp add: returned_evaluate error_pct_of_def spec_error_pct_def f_sub_def)

text \<open>
  C4, amended. For an actual value that is not zero the call returns
  \<open>|actual - predicted| / |actual| * 100\<close> and does not raise; this is the formula
  of the specification when the actual value is positive; and it is the same for a
  predicted value on the other side of the actual one, at the same distance.
\<close>

theorem C4_error_pct_formula:
  "\<not> f_eq actual_value (Fin 0) \<Longrightarrow>
   (\<exists>v. returned (evaluate_forecast_and_notify env actual_value predicted_value model_name
                    forecast_date w) = Inr v)
   \<and> returned (evaluate_forecast_and_notify env actual_value predicted_value model_name
                 forecast_date w) = abs_error_pct actual_value predicted_value
   \<and> (f_lt (Fin 0) actual_value \<longrightarrow>
        returned (evaluate_forecast_and_notify env actual_value predicted_value model_name
                    forecast_date w) = spec_error_pct actual_value predicted_value)
   \<and> (\<forall>p'. f_sub actual_value p' = f_neg (f_sub actual_value predicted_value) \<longrightarrow>
          returned (evaluate_forecast_and_notify env actual_value p' model_name forecast_date w)
          = returned (evaluate_forecast_and_notify env actual_value predicted_value model_name
                        forecast_date w))"
  using abs_error_pct_returns [of actual_value predicted_value]
  by (simp add: returned_evaluate error_pct_of_abs abs_error_pct_positive abs_error_pct_swap)

theorem C4_error_pct_formula_witness:
  "\<not> f_eq (Fin 100) (Fin 0) \<and> f_lt (Fin 0) (Fin 100)
   \<and> f_sub (Fin 100) (Fin 108) = f_neg (f_sub (Fin 100) (Fin 92))
   \<and> returned (evaluate_forecast_and_notify example_env (Fin 100) (Fin 92) ''ARIMA'' None
                 example_world) = Inr (Fin 8)
   \<and> spec_error_pct (Fin 100) (Fin 92) = Inr (Fin 8)
   \<and> returned (evaluate_forecast_and_notify example_env (Fin 100) (Fin 108) ''ARIMA'' None
                 example_world) = Inr (Fin 8)"
  using C4_error_pct_formula [of "Fin 100" example_env "Fin 92" "''ARIMA''" None example_world]
  by (simp add: abs_error_pct_def spec_error_pct_def f_sub_def)

subsection \<open>Dictionaries\<close>

lemma dict_get_set: "dict_get (dict_set d k v) k' = (if k' = k then Some v else dict_get d k')"
  by (induction d) (auto simp: dict_get_def)

lemma dict_keys_set: "set (dict_keys (dict_set d k v)) = insert k (set (dict_keys d))"
proof (induction d)
  case Nil
  show ?case by (simp add: dict_keys_def)
next
  case (Cons a d)
  obtain k' v' where a: "a = (k', v')" by (cases a)
  from Cons.IH have "set (map fst (dict_set d k v)) = insert k (set (map fst d))"
    by (simp add: dict_keys_def)
  then show ?case
    by (cases "k' = k") (simp_all add: a dict_keys_def insert_commute)
qed

lemma dict_wf_set: "dict_wf d \<Longrightarrow> dict_wf (dict_set d k v)"
proof (induction d)
  case Nil
  then show ?case by (simp add: dict_wf_def dict_keys_def)
next
  case (Cons a d)
  obtain k' v' where a: "a = (k', v')" by (cases a)
  from Cons.prems have "dict_wf d" and "k' \<notin> set (dict_keys d)"
    by (auto simp: a dict_wf_def dict_keys_def)
  with Cons.IH dict_keys_set [of d k v] show ?case
    by (auto simp: a dict_wf_def dict_keys_def)
qed

lemma dict_set_twice: "dict_set (dict_set d k v) k v' = dict_set d k v'"
  by (induction d) auto

lemma dict_contains_get: "dict_contains d k \<longleftrightarrow> dict_get d k \<noteq> None"
  by (simp add: dict_contains_def dict_keys_def dict_get_def map_of_eq_None_iff)

lemma dict_get_filter_key:
  "dict_get (filter (\<lambda>(k', v). P k') d) k = (if P k then dict_get d k else None)"
  by (induction d) (auto simp: dict_get_def)

lemma dict_get_map_values:
  "dict_get (map (\<lambda>(k', v). (k', f v)) d) k = map_option f (dict_get d k)"
  by (induction d) (auto simp: dict_get_def)

lemma dict_wf_filter: "dict_wf d \<Longrightarrow> dict_wf (filter P d)"
  by (simp add: dict_wf_def dict_keys_def distinct_map_filter)

lemma dict_keys_map_values: "dict_keys (map (\<lambda>(k', v). (k', f v)) d) = dict_keys d"
  by (induction d) (auto simp: dict_keys_def)

lemma dict_get_in_set: "dict_get d k = Some v \<Longrightarrow> (k, v) \<in> set d"
  by (simp add: dict_get_def map_of_SomeD)

lemma list_all_dict_set:
  "list_all (\<lambda>(k', v'). P v') d \<Longrightarrow> P v \<Longrightarrow> list_all (\<lambda>(k', v'). P v') (dict_set d k v)"
  by (induction d) auto

lemma dict_wf_count: "dict_wf d \<Longrightarrow> length (filter (\<lambda>(k', v). k' = k) d) \<le> 1"
proof (induction d)
  case Nil
  show ?case by simp
next
  case (Cons a d)
  obtain k' v' where a: "a = (k', v')" by (cases a)
  from Cons.prems have wf: "dict_wf d" and fresh: "k' \<notin> fst ` set d"
    by (auto simp: a dict_wf_def dict_keys_def)
  show ?case
  proof (cases "k' = k")
    case True
    with fresh have "filter (\<lambda>(k', v). k' = k) d = []"
      by (force simp: filter_empty_conv)
    with True show ?thesis by (simp add: a)
  next
    case False
    with Cons.IH [OF wf] show ?thesis by (simp add: a)
  qed
qed

text \<open>\<open>dict.update\<close>: a key of the argument takes the argument's value, any other keeps its own.\<close>

lemma dict_get_update_other:
  "k \<notin> set (dict_keys m) \<Longrightarrow> dict_get (dict_update d m) k = dict_get d k"
  by (induction d m rule: dict_update.induct) (auto simp: dict_keys_def dict_get_set)

lemma dict_get_update_supplied:
  "dict_wf m \<Longrightarrow> dict_get m k = Some v \<Longrightarrow> dict_get (dict_update d m) k = Some v"
proof (induction d m rule: dict_update.induct)
  case (1 d)
  then show ?case by (simp add: dict_get_def)
next
  case (2 d k' v' other)
  from "2.prems" have wf: "dict_wf other" and fresh: "k' \<notin> set (dict_keys other)"
    by (auto simp: dict_wf_def dict_keys_def)
  show ?case
  proof (cases "k' = k")
    case True
    with "2.prems" have "v' = v" by (simp add: dict_get_def)
    with True fresh show ?thesis
      by (simp add: dict_get_update_other dict_get_set)
  next
    case False
    with "2.prems" have "dict_get other k = Some v" by (simp add: dict_get_def)
    with "2.IH" wf show ?thesis by simp
  qed
qed

subsection \<open>What \<open>add_error\<close> does to the tracker\<close>

lemma add_error_history:
  "tracker_after (add_error env self w model_name error_value forecast_date metrics)
   = self\<lparr>history := history_after env self model_name error_value forecast_date metrics\<rparr>"
proof (cases "dict_get (history self) model_name")
  case None
  then have "\<not> dict_contains (history self) model_name"
    by (simp add: dict_contains_get)
  with None show ?thesis
    by (auto simp: tracker_after_def add_error_def Let_def prune_old_entries_def call_date_def
        get_model_history_def history_after_def dict_get_set dict_set_twice
        split: prod.splits)
next
  case (Some es)
  then have "dict_contains (history self) model_name"
    by (simp add: dict_contains_get)
  with Some show ?thesis
    by (auto simp: tracker_after_def add_error_def Let_def prune_old_entries_def call_date_def
        get_model_history_def history_after_def split: prod.splits)
qed

lemma add_error_save:
  "(succeeded (add_error env self w model_name error_value forecast_date metrics),
    world_after (add_error env self w model_name error_value forecast_date metrics))
   = save_history env
       (tracker_after (add_error env self w model_name error_value forecast_date metrics)) w"
  by (auto simp: succeeded_def world_after_def tracker_after_def add_error_def Let_def
      split: prod.splits)

lemma get_model_history_after:
  "get_model_history
     (t\<lparr>history := history_after env self model_name error_value forecast_date metrics\<rparr>) m
   = filter (\<lambda>(d, e). days_ago env (max_days self) \<le> d)
       (if m = model_name
        then dict_set (get_model_history self model_name) (call_date env forecast_date)
               (new_entry env error_value metrics)
        else get_model_history self m)"
  by (auto simp: get_model_history_def history_after_def dict_get_map_values dict_get_set
      split: option.splits)

lemma stored_observation_after:
  "stored_observation
     (tracker_after (add_error env self w model_name error_value forecast_date metrics))
     model_name (call_date env forecast_date)
   = (if days_ago env (max_days self) \<le> call_date env forecast_date
      then Some (new_entry env error_value metrics) else None)"
  by (simp add: add_error_history stored_observation_def get_model_history_after
      dict_get_filter_key dict_get_set)

lemma history_wf_prune:
  assumes "history_wf h"
  shows "history_wf (map (\<lambda>(m, es). (m, filter P es)) h)"
proof -
  from assms have "dict_wf (map (\<lambda>(m, es). (m, filter P es)) h)"
    by (simp add: history_wf_def dict_wf_def dict_keys_map_values)
  moreover from assms
  have "list_all (\<lambda>(m, es). dict_wf es) (map (\<lambda>(m, es). (m, filter P es)) h)"
    by (auto simp: history_wf_def list_all_iff dict_wf_filter)
  ultimately show ?thesis by (simp add: history_wf_def)
qed

lemma history_wf_model:
  assumes "history_wf (history self)"
  shows "dict_wf (get_model_history self model_name)"
proof (cases "dict_get (history self) model_name")
  case None
  then show ?thesis by (simp add: get_model_history_def dict_wf_def dict_keys_def)
next
  case (Some es)
  then have "(model_name, es) \<in> set (history self)" by (rule dict_get_in_set)
  with assms have "dict_wf es" by (auto simp: history_wf_def list_all_iff)
  with Some show ?thesis by (simp add: get_model_history_def)
qed

lemma history_wf_after:
  assumes "history_wf (history self)"
  shows "history_wf (history_after env self model_name error_value forecast_date metrics)"
proof -
  let ?es = "dict_set (get_model_history self model_name) (call_date env forecast_date)
               (new_entry env error_value metrics)"
  let ?h1 = "dict_set (history self) model_name ?es"
  from assms have "dict_wf (get_model_history self model_name)" by (rule history_wf_model)
  then have es: "dict_wf ?es" by (rule dict_wf_set)
  from assms have "dict_wf ?h1" by (simp add: history_wf_def dict_wf_set)
  moreover from assms es have "list_all (\<lambda>(m, es). dict_wf es) ?h1"
    by (simp add: history_wf_def list_all_dict_set)
  ultimately have "history_wf ?h1" by (simp add: history_wf_def)
  then show ?thesis unfolding history_after_def by (rule history_wf_prune)
qed

lemma add_errors_invariant:
  "history_wf (history self) \<Longrightarrow>
   history_wf (history (fst (add_errors self w calls)))
   \<and> max_days (fst (add_errors self w calls)) = max_days self"
proof (induction calls arbitrary: self w)
  case Nil
  then show ?case by simp
next
  case (Cons c calls)
  obtain env m e fd metrics where c: "c = (env, m, e, fd, metrics)" by (cases c)
  let ?r = "add_error env self w m e fd metrics"
  from Cons.prems have "history_wf (history (tracker_after ?r))"
    by (simp add: add_error_history history_wf_after)
  from Cons.IH [OF this, of "world_after ?r"] show ?case
    by (simp add: c Let_def add_error_history)
qed

lemma add_errors_snoc:
  "add_errors self w (calls @ [(env, m, e, fd, metrics)])
   = (let (self', w') = add_errors self w calls;
          r = add_error env self' w' m e fd metrics
      in (tracker_after r, world_after r))"
proof (induction calls arbitrary: self w)
  case Nil
  show ?case by (simp add: Let_def)
next
  case (Cons c calls)
  obtain env' m' e' fd' metrics' where c: "c = (env', m', e', fd', metrics')" by (cases c)
  show ?case by (simp add: c Let_def Cons.IH)
qed


subsection \<open>The stored observation\<close>

lemma new_entry_keeps:
  assumes "k \<notin> set (metrics_keys metrics)"
  shows "dict_get (new_entry env error_value metrics) k
         = dict_get [(''error'', JNum error_value), (''timestamp'', JStr (now_iso env))] k"
proof (cases metrics)
  case None
  then show ?thesis by (simp add: new_entry_def)
next
  case (Some m)
  with assms have "k \<notin> set (dict_keys m)" by (simp add: metrics_keys_def)
  then show ?thesis
    by (simp add: Some new_entry_def Let_def dict_get_update_other)
qed

lemma new_entry_error:
  "''error'' \<notin> set (metrics_keys metrics) \<Longrightarrow>
   dict_get (new_entry env error_value metrics) ''error'' = Some (JNum error_value)"
  by (simp add: new_entry_keeps) (simp add: dict_get_def)

lemma new_entry_timestamp:
  "''timestamp'' \<notin> set (metrics_keys metrics) \<Longrightarrow>
   dict_get (new_entry env error_value metrics) ''timestamp'' = Some (JStr (now_iso env))"
  by (simp add: new_entry_keeps) (simp add: dict_get_def)

lemma new_entry_supplied:
  assumes "dict_wf m" and "dict_get m k = Some v"
  shows "dict_get (new_entry env error_value (Some m)) k = Some v"
proof -
  from assms(2) have "m \<noteq> []" by (auto simp: dict_get_def)
  with assms show ?thesis
    by (simp add: new_entry_def Let_def dict_get_update_supplied)
qed

lemma history_after_write_result:
  "history_after (env\<lparr>write_result := f\<rparr>) self m e fd metrics
   = history_after env self m e fd metrics"
  by (cases fd) (simp_all add: history_after_def call_date_def new_entry_def)

text \<open>
  C2, as the claim states it, fails: the caller's metrics are merged with \<open>dict.update\<close>
  after the store has set \<open>error\<close> and \<open>timestamp\<close>, so a caller that supplies these
  keys overwrites both. Here the error value is \<open>4\<close> and the stored \<open>error\<close> is the
  caller's \<open>99\<close>; the stored \<open>timestamp\<close> is the caller's string, not the instant of
  the call.
\<close>

theorem C2_reserved_keys_counterexample:
  "stored_observation
     (tracker_after
        (add_error example_env example_tracker example_world ''ARIMA'' (Fin 4)
           (Some ''2026-11-03'')
           (Some [(''error'', JNum (Fin 99)), (''timestamp'', JStr ''never'')])))
     ''ARIMA'' ''2026-11-03''
   = Some [(''error'', JNum (Fin 99)), (''timestamp'', JStr ''never'')]
   \<and> JNum (Fin 99) \<noteq> JNum (Fin 4)
   \<and> JStr ''never'' \<noteq> JStr (now_iso example_env)"
  using stored_observation_after [of example_env example_tracker example_world "''ARIMA''" "Fin 4"
      "Some ''2026-11-03''" "Some [(''error'', JNum (Fin 99)), (''timestamp'', JStr ''never'')]"]
  by (simp add: call_date_def example_env_def example_tracker_def new_entry_def)

text \<open>
  C2, amended. The observation that \<open>add_error\<close> stores (for a date that pruning
  keeps) has the store's \<open>error\<close>, the float of \<open>error_value\<close>, unless the caller's
  metrics have a key \<open>error\<close>, and the store's \<open>timestamp\<close>, the creation instant,
  unless they have a key \<open>timestamp\<close>; every key the caller supplies is stored with the
  caller's value, these two included.
\<close>

theorem C2_reserved_keys_unless_supplied:
  "days_ago env (max_days self) \<le> call_date env forecast_date \<Longrightarrow>
   \<exists>entry.
     stored_observation
       (tracker_after (add_error env self w model_name error_value forecast_date (Some metrics)))
       model_name (call_date env forecast_date) = Some entry
     \<and> (\<not> dict_contains metrics ''error'' \<longrightarrow>
          dict_get entry ''error'' = Some (JNum error_value))
     \<and> (\<not> dict_contains metrics ''timestamp'' \<longrightarrow>
          dict_get entry ''timestamp'' = Some (JStr (now_iso env)))
     \<and> (dict_wf metrics \<longrightarrow>
          (\<forall>k v. dict_get metrics k = Some v \<longrightarrow> dict_get entry k = Some v))"
  using new_entry_error [of "Some metrics" env error_value]
        new_entry_timestamp [of "Some metrics" env error_value]
  by (simp add: stored_observation_after new_entry_supplied metrics_keys_def dict_contains_def)

theorem C2_reserved_keys_unless_supplied_witness:
  "days_ago example_env (max_days example_tracker) \<le> call_date example_env None
   \<and> \<not> dict_contains [(''actual'', JNum (Fin 100))] ''error''
   \<and> \<not> dict_contains [(''actual'', JNum (Fin 100))] ''timestamp''
   \<and> dict_wf [(''actual'', JNum (Fin 100))]
   \<and> dict_get [(''actual'', JNum (Fin 100))] ''actual'' = Some (JNum (Fin 100))
   \<and> stored_observation
       (tracker_after
          (add_error example_env example_tracker example_world ''ARIMA'' (Fin 4) None
             (Some [(''actual'', JNum (Fin 100))])))
       ''ARIMA'' ''2026-11-03''
     = Some [(''error'', JNum (Fin 4)), (''timestamp'', JStr ''2026-11-03T00:15:00''),
             (''actual'', JNum (Fin 100))]"
  using C2_reserved_keys_unless_supplied [of example_env example_tracker None example_world
      "''ARIMA''" "Fin 4" "[(''actual'', JNum (Fin 100))]"]
        stored_observation_after [of example_env example_tracker example_world "''ARIMA''" "Fin 4"
      None "Some [(''actual'', JNum (Fin 100))]"]
  by (simp add: call_date_def example_env_def example_tracker_def new_entry_def
      dict_contains_def dict_keys_def dict_wf_def dict_get_def)

subsection \<open>Persistence failure\<close>

lemma save_history_fails:
  assumes "write_result env (history_file self) \<noteq> WriteOk"
  shows "fst (save_history env self w) = False"
    and "\<exists>msg. log_records (snd (save_history env self w))
               = log_records w @ [(''error'', ''Error saving history file: '' @ msg)]"
    and "files (snd (save_history env self w)) = files w
         \<or> files (snd (save_history env self w)) = (files w)(history_file self := Corrupt)"
  using assms
  by (auto simp: save_history_def logger_def split: write_result.splits)

text \<open>
  C8, as the claim states it, fails for an observation of a date older than the
  retention window: pruning runs before the snapshot is written, so after the failed
  call the history in memory does not hold the observation just written.
\<close>

theorem C8_pruned_observation_counterexample:
  "write_result example_env_disk_full (history_file example_tracker)
     = FailsAfterOpen ''[Errno 28] No space left on device''
   \<and> succeeded (add_error example_env_disk_full example_tracker example_world ''ARIMA'' (Fin 4)
                  (Some ''2026-01-01'') None) = False
   \<and> stored_observation
       (tracker_after (add_error example_env_disk_full example_tracker example_world ''ARIMA''
                         (Fin 4) (Some ''2026-01-01'') None))
       ''ARIMA'' ''2026-01-01'' = None"
proof -
  let ?r = "add_error example_env_disk_full example_tracker example_world ''ARIMA'' (Fin 4)
              (Some ''2026-01-01'') None"
  have p: "write_result example_env_disk_full (history_file example_tracker)
             = FailsAfterOpen ''[Errno 28] No space left on device''"
    by (simp add: example_env_disk_full_def)
  have "history_file (tracker_after ?r) = history_file example_tracker"
    by (simp add: add_error_history)
  with add_error_save [of example_env_disk_full example_tracker example_world "''ARIMA''" "Fin 4"
      "Some ''2026-01-01''" None] p
  have "succeeded ?r = False" by (auto simp: save_history_def)
  moreover have "stored_observation (tracker_after ?r) ''ARIMA'' ''2026-01-01'' = None"
    using stored_observation_after [of example_env_disk_full example_tracker example_world
        "''ARIMA''" "Fin 4" "Some ''2026-01-01''" None]
    by (simp add: call_date_def example_env_disk_full_def example_env_def example_tracker_def)
  ultimately show ?thesis using p by simp
qed

text \<open>
  C8, amended. When the snapshot cannot be written, \<open>add_error\<close> returns \<open>False\<close> (it has
  no way to raise) and logs the failure; the tracker in memory is the one a successful
  call leaves, nothing is rolled back: the observation just written is in it when its
  date is not older than the retention window, and pruned from it when it is. The file
  is as it was, or truncated if it had been opened.
\<close>

theorem C8_persistence_failure_keeps_memory:
  "write_result env (history_file self) \<noteq> WriteOk \<Longrightarrow>
   succeeded (add_error env self w model_name error_value forecast_date metrics) = False
   \<and> tracker_after (add_error env self w model_name error_value forecast_date metrics)
     = tracker_after (add_error (env\<lparr>write_result := (\<lambda>path. WriteOk)\<rparr>) self w model_name
                        error_value forecast_date metrics)
   \<and> stored_observation
       (tracker_after (add_error env self w model_name error_value forecast_date metrics))
       model_name (call_date env forecast_date)
     = (if days_ago env (max_days self) \<le> call_date env forecast_date
        then Some (new_entry env error_value metrics) else None)
   \<and> (\<exists>msg. log_records
                (world_after (add_error env self w model_name error_value forecast_date metrics))
              = log_records w @ [(''error'', ''Error saving history file: '' @ msg)])
   \<and> (files (world_after (add_error env self w model_name error_value forecast_date metrics))
        = files w
      \<or> files (world_after (add_error env self w model_name error_value forecast_date metrics))
        = (files w)(history_file self := Corrupt))"
proof -
  assume fail: "write_result env (history_file self) \<noteq> WriteOk"
  let ?r = "add_error env self w model_name error_value forecast_date metrics"
  have hf: "history_file (tracker_after ?r) = history_file self"
    by (simp add: add_error_history)
  from add_error_save [of env self w model_name error_value forecast_date metrics]
  have s: "succeeded ?r = fst (save_history env (tracker_after ?r) w)"
    and v: "world_after ?r = snd (save_history env (tracker_after ?r) w)"
    by (simp_all add: prod_eq_iff)
  from fail hf have f: "write_result env (history_file (tracker_after ?r)) \<noteq> WriteOk" by simp
  note save_history_fails [OF f, of w, unfolded hf]
  then have a: "succeeded ?r = False"
    and b: "\<exists>msg. log_records (world_after ?r)
               = log_records w @ [(''error'', ''Error saving history file: '' @ msg)]"
    and c: "files (world_after ?r) = files w
         \<or> files (world_after ?r) = (files w)(history_file self := Corrupt)"
    by (simp_all add: s v)
  have eq: "tracker_after ?r
     = tracker_after (add_error (env\<lparr>write_result := (\<lambda>path. WriteOk)\<rparr>) self w model_name
                        error_value forecast_date metrics)"
    by (simp add: add_error_history history_after_write_result)
  have st: "stored_observation (tracker_after ?r) model_name (call_date env forecast_date)
     = (if days_ago env (max_days self) \<le> call_date env forecast_date
        then Some (new_entry env error_value metrics) else None)"
    by (rule stored_observation_after)
  show ?thesis
    by (intro conjI; (fact a | fact eq | fact st | fact b | fact c))
qed

theorem C8_persistence_failure_keeps_memory_witness:
  "write_result example_env_disk_full (history_file example_tracker) \<noteq> WriteOk
   \<and> succeeded (add_error example_env_disk_full example_tracker example_world ''ARIMA'' (Fin 4)
                  None None) = False
   \<and> stored_observation
       (tracker_after (add_error example_env_disk_full example_tracker example_world ''ARIMA''
                         (Fin 4) None None))
       ''ARIMA'' ''2026-11-03''
     = Some (observation 4 ''2026-11-03T00:15:00'')
   \<and> files (world_after (add_error example_env_disk_full example_tracker example_world ''ARIMA''
                           (Fin 4) None None)) ''data/error_history.json'' = Corrupt"
proof -
  let ?r = "add_error example_env_disk_full example_tracker example_world ''ARIMA'' (Fin 4)
              None None"
  have p: "write_result example_env_disk_full (history_file example_tracker) \<noteq> WriteOk"
    by (simp add: example_env_disk_full_def)
  have q: "days_ago example_env_disk_full (max_days example_tracker)
             \<le> call_date example_env_disk_full None"
    by (simp add: example_env_disk_full_def example_env_def example_tracker_def call_date_def)
  have d: "call_date example_env_disk_full None = ''2026-11-03''"
    by (simp add: example_env_disk_full_def example_env_def call_date_def)
  have e: "new_entry example_env_disk_full (Fin 4) None = observation 4 ''2026-11-03T00:15:00''"
    by (simp add: example_env_disk_full_def example_env_def new_entry_def observation_def)
  have hf: "history_file (tracker_after ?r) = ''data/error_history.json''"
    by (simp add: add_error_history example_tracker_def)
  have wr: "write_result example_env_disk_full path
              = FailsAfterOpen ''[Errno 28] No space left on device''" for path
    by (simp add: example_env_disk_full_def)
  from add_error_save [of example_env_disk_full example_tracker example_world "''ARIMA''" "Fin 4"
      None None]
  have c: "files (world_after ?r) ''data/error_history.json'' = Corrupt"
    by (simp add: prod_eq_iff save_history_def hf wr logger_def)
  note t = C8_persistence_failure_keeps_memory [OF p, of example_world "''ARIMA''" "Fin 4"
      None None]
  from t have a: "succeeded ?r = False" by (elim conjE)
  from t have "stored_observation (tracker_after ?r) ''ARIMA''
                 (call_date example_env_disk_full None)
               = (if days_ago example_env_disk_full (max_days example_tracker)
                       \<le> call_date example_env_disk_full None
                  then Some (new_entry example_env_disk_full (Fin 4) None) else None)"
    by (elim conjE)
  with q have "stored_observation (tracker_after ?r) ''ARIMA''
                 (call_date example_env_disk_full None)
               = Some (new_entry example_env_disk_full (Fin 4) None)"
    by (simp only: if_True)
  with a p c show ?thesis by (simp add: d e)
qed

subsection \<open>Retention\<close>

text \<open>The strings of dates are ordered as the dates are.\<close>

lemma of_char_digit: "a < 10 \<Longrightarrow> of_char (digit_char a) = 48 + a"
  by (simp add: digit_char_def)

lemma digit_char_less: "a < 10 \<Longrightarrow> b < 10 \<Longrightarrow> digit_char a < digit_char b \<longleftrightarrow> a < b"
  by (simp only: less_char_def of_char_digit) simp

lemma digit_char_eq:
  assumes "a < 10" "b < 10"
  shows "digit_char a = digit_char b \<longleftrightarrow> a = b"
proof
  assume "digit_char a = digit_char b"
  then have "(of_char (digit_char a) :: nat) = of_char (digit_char b)" by simp
  with assms show "a = b" by (simp only: of_char_digit)
next
  assume "a = b"
  then show "digit_char a = digit_char b" by simp
qed

lemma lex_digits:
  fixes qa qb ra rb :: nat
  assumes "ra < 10" "rb < 10"
  shows "(qa < qb \<or> (qa = qb \<and> ra < rb)) \<longleftrightarrow> 10 * qa + ra < 10 * qb + rb"
  using assms by auto

lemma pad2_less:
  assumes "a < 100" "b < 100"
  shows "pad2 a < pad2 b \<longleftrightarrow> a < b"
proof -
  from assms have r: "a div 10 < 10" "b div 10 < 10" "a mod 10 < 10" "b mod 10 < 10" by auto
  have "pad2 a < pad2 b \<longleftrightarrow>
        a div 10 < b div 10 \<or> (a div 10 = b div 10 \<and> a mod 10 < b mod 10)"
    unfolding pad2_def using r by (simp only: Cons_less_Cons digit_char_less digit_char_eq) simp
  also have "\<dots> \<longleftrightarrow> 10 * (a div 10) + a mod 10 < 10 * (b div 10) + b mod 10"
    using r by (intro lex_digits)
  finally show ?thesis by simp
qed

lemma pad2_eq:
  assumes "a < 100" "b < 100"
  shows "pad2 a = pad2 b \<longleftrightarrow> a = b"
proof
  assume "pad2 a = pad2 b"
  then have "\<not> pad2 a < pad2 b" and "\<not> pad2 b < pad2 a" by simp_all
  with assms have "\<not> a < b" and "\<not> b < a" by (simp_all add: pad2_less)
  then show "a = b" by simp
next
  assume "a = b"
  then show "pad2 a = pad2 b" by simp
qed

lemma lex_hundreds:
  fixes qa qb ra rb :: nat
  assumes "ra < 100" "rb < 100"
  shows "(qa < qb \<or> (qa = qb \<and> ra < rb)) \<longleftrightarrow> 100 * qa + ra < 100 * qb + rb"
  using assms by auto

lemma append_less_same_length:
  "length xs = length ys \<Longrightarrow>
   xs @ us < ys @ vs \<longleftrightarrow> xs < ys \<or> (xs = ys \<and> us < (vs :: 'a :: linorder list))"
  by (induction xs ys rule: list_induct2) auto

lemma length_pad2: "length (pad2 n) = 2"
  by (simp add: pad2_def)

lemma pad4_less:
  assumes "a < 10000" "b < 10000"
  shows "pad4 a < pad4 b \<longleftrightarrow> a < b"
proof -
  from assms have r: "a div 100 < 100" "b div 100 < 100" "a mod 100 < 100" "b mod 100 < 100"
    by auto
  have "pad4 a < pad4 b \<longleftrightarrow>
        a div 100 < b div 100 \<or> (a div 100 = b div 100 \<and> a mod 100 < b mod 100)"
    unfolding pad4_def using r
    by (simp only: append_less_same_length length_pad2 pad2_less pad2_eq)
  also have "\<dots> \<longleftrightarrow> 100 * (a div 100) + a mod 100 < 100 * (b div 100) + b mod 100"
    using r by (intro lex_hundreds)
  finally show ?thesis by simp
qed

lemma pad4_eq:
  assumes "a < 10000" "b < 10000"
  shows "pad4 a = pad4 b \<longleftrightarrow> a = b"
proof
  assume "pad4 a = pad4 b"
  then have "\<not> pad4 a < pad4 b" and "\<not> pad4 b < pad4 a" by simp_all
  with assms have "\<not> a < b" and "\<not> b < a" by (simp_all add: pad4_less)
  then show "a = b" by simp
next
  assume "a = b"
  then show "pad4 a = pad4 b" by simp
qed

lemma length_pad4: "length (pad4 n) = 4"
  by (simp add: pad4_def length_pad2)

lemma strftime_ymd_less:
  assumes "valid_date a" "valid_date b"
  shows "strftime_ymd a < strftime_ymd b \<longleftrightarrow> earlier a b"
proof -
  obtain y m d where a: "a = (y, m, d)" by (cases a)
  obtain y' m' d' where b: "b = (y', m', d')" by (cases b)
  from assms have r: "y < 10000" "y' < 10000" "m < 100" "m' < 100" "d < 100" "d' < 100"
    by (auto simp: a b valid_date_def)
  have tail: "''-'' @ pad2 d < ''-'' @ pad2 d' \<longleftrightarrow> d < d'"
    using r by (simp add: pad2_less)
  have mid: "pad2 m @ ''-'' @ pad2 d < pad2 m' @ ''-'' @ pad2 d'
             \<longleftrightarrow> m < m' \<or> (m = m' \<and> d < d')"
    using r by (simp only: append_less_same_length length_pad2 pad2_less pad2_eq tail)
  have mid': "''-'' @ pad2 m @ ''-'' @ pad2 d < ''-'' @ pad2 m' @ ''-'' @ pad2 d'
             \<longleftrightarrow> m < m' \<or> (m = m' \<and> d < d')"
    using mid by simp
  have "pad4 y @ ''-'' @ pad2 m @ ''-'' @ pad2 d < pad4 y' @ ''-'' @ pad2 m' @ ''-'' @ pad2 d'
        \<longleftrightarrow> y < y' \<or> (y = y' \<and> (m < m' \<or> (m = m' \<and> d < d')))"
    using r by (simp only: append_less_same_length length_pad4 pad4_less pad4_eq mid')
  then show ?thesis by (simp add: a b strftime_ymd_def earlier_def)
qed

lemma example_dates:
  "strftime_ymd (2026, 10, 4) = ''2026-10-04''"
  "strftime_ymd (2026, 10, 31) = ''2026-10-31''"
  by code_simp+

text \<open>
  C9. After \<open>add_error\<close> on a tracker with \<open>max_days = 30\<close>, every date that
  \<open>get_model_history\<close> returns, for every model, is at or after the date thirty days
  before the call: in the order of the strings, which is what the code compares, and so,
  for keys that are dates in the format \<open>'%Y-%m-%d'\<close>, in the order of the calendar.
\<close>

theorem C9_no_entry_older_than_retention:
  "max_days self = 30 \<Longrightarrow>
   (\<forall>model. \<forall>(date, entry) \<in> set (get_model_history
        (tracker_after (add_error env self w model_name error_value forecast_date metrics)) model).
      days_ago env 30 \<le> date)
   \<and> (\<forall>model cutoff day.
         valid_date cutoff \<and> valid_date day \<and> days_ago env 30 = strftime_ymd cutoff
         \<and> dict_contains (get_model_history
               (tracker_after (add_error env self w model_name error_value forecast_date metrics))
               model) (strftime_ymd day)
         \<longrightarrow> \<not> earlier day cutoff)"
proof -
  assume m: "max_days self = 30"
  let ?t = "tracker_after (add_error env self w model_name error_value forecast_date metrics)"
  have keys: "days_ago env 30 \<le> date" if "(date, entry) \<in> set (get_model_history ?t model)"
    for model date entry
    using that m by (auto simp: add_error_history get_model_history_after split: if_splits)
  have "\<not> earlier day cutoff"
    if "valid_date cutoff" "valid_date day" "days_ago env 30 = strftime_ymd cutoff"
      "dict_contains (get_model_history ?t model) (strftime_ymd day)"
    for model cutoff day
  proof -
    from that(4) obtain entry where "(strftime_ymd day, entry) \<in> set (get_model_history ?t model)"
      by (auto simp: dict_contains_def dict_keys_def)
    then have "strftime_ymd cutoff \<le> strftime_ymd day"
      using keys that(3) by auto
    then have "\<not> strftime_ymd day < strftime_ymd cutoff" by simp
    with that(1,2) show ?thesis by (simp add: strftime_ymd_less)
  qed
  with keys show ?thesis by blast
qed

theorem C9_no_entry_older_than_retention_witness:
  "max_days example_tracker = 30
   \<and> dict_keys (get_model_history example_tracker ''ARIMA'')
     = [''2026-09-01'', ''2026-10-31'', ''2026-11-01'', ''2026-11-02'']
   \<and> dict_keys (get_model_history
        (tracker_after (add_error example_env example_tracker example_world ''ARIMA'' (Fin 4)
                          None None)) ''ARIMA'')
     = [''2026-10-31'', ''2026-11-01'', ''2026-11-02'', ''2026-11-03'']
   \<and> days_ago example_env 30 = strftime_ymd (2026, 10, 4)
   \<and> valid_date (2026, 10, 4) \<and> valid_date (2026, 10, 31)
   \<and> dict_contains (get_model_history
        (tracker_after (add_error example_env example_tracker example_world ''ARIMA'' (Fin 4)
                          None None)) ''ARIMA'') (strftime_ymd (2026, 10, 31))
   \<and> \<not> earlier (2026, 10, 31) (2026, 10, 4)"
proof -
  let ?t = "tracker_after (add_error example_env example_tracker example_world ''ARIMA'' (Fin 4)
                             None None)"
  have m: "max_days example_tracker = 30" by (simp add: example_tracker_def)
  have k0: "dict_keys (get_model_history example_tracker ''ARIMA'')
              = [''2026-09-01'', ''2026-10-31'', ''2026-11-01'', ''2026-11-02'']"
    by (simp add: example_tracker_def get_model_history_def dict_get_def dict_keys_def)
  have k: "dict_keys (get_model_history ?t ''ARIMA'')
             = [''2026-10-31'', ''2026-11-01'', ''2026-11-02'', ''2026-11-03'']"
    by (simp add: add_error_history get_model_history_after)
       (simp add: example_env_def example_tracker_def get_model_history_def dict_get_def
          dict_keys_def call_date_def)
  have c: "days_ago example_env 30 = strftime_ymd (2026, 10, 4)"
    by (simp add: example_dates example_env_def)
  have v: "valid_date (2026, 10, 4)" "valid_date (2026, 10, 31)"
    by (simp_all add: valid_date_def)
  have d: "dict_contains (get_model_history ?t ''ARIMA'') (strftime_ymd (2026, 10, 31))"
    by (simp add: dict_contains_def k example_dates)
  from C9_no_entry_older_than_retention [OF m, of example_env example_world "''ARIMA''" "Fin 4"
      None None] v c d
  have "\<not> earlier (2026, 10, 31) (2026, 10, 4)" by blast
  with m k0 k c v d show ?thesis by simp
qed

subsection \<open>One observation for a model and a date\<close>

text \<open>
  C5. After any sequence of \<open>add_error\<close> calls the history holds at most one
  observation for a model and a date. After one more call, what is stored under its key
  is the observation built from that call alone, whatever was there before (or nothing,
  when the date is older than the retention window), and its \<open>error\<close> is the error
  value of that call.
\<close>

theorem C5_one_observation_per_key:
  "history_wf (history self) \<Longrightarrow>
   (\<forall>model date. observations (fst (add_errors self w calls)) model date \<le> 1)
   \<and> stored_observation
       (fst (add_errors self w (calls @ [(env, model_name, error_value, forecast_date, metrics)])))
       model_name (call_date env forecast_date)
     = (if days_ago env (max_days self) \<le> call_date env forecast_date
        then Some (new_entry env error_value metrics) else None)
   \<and> (''error'' \<notin> set (metrics_keys metrics) \<longrightarrow>
        dict_get (new_entry env error_value metrics) ''error'' = Some (JNum error_value))"
proof -
  assume wf: "history_wf (history self)"
  note inv = add_errors_invariant [OF wf, of w calls]
  have "observations (fst (add_errors self w calls)) model date \<le> 1" for model date
    unfolding observations_def
    using inv by (intro dict_wf_count history_wf_model) simp
  moreover have "stored_observation
       (fst (add_errors self w (calls @ [(env, model_name, error_value, forecast_date, metrics)])))
       model_name (call_date env forecast_date)
     = (if days_ago env (max_days self) \<le> call_date env forecast_date
        then Some (new_entry env error_value metrics) else None)"
    using inv by (simp add: add_errors_snoc Let_def split_beta stored_observation_after)
  ultimately show ?thesis by (simp add: new_entry_error)
qed


theorem C5_one_observation_per_key_witness:
  "history_wf (history example_tracker)
   \<and> observations
       (fst (add_errors example_tracker example_world
               [(example_env, ''ARIMA'', Fin 4, None, None),
                (example_env, ''ARIMA'', Fin 6, None, None)]))
       ''ARIMA'' ''2026-11-03'' = 1
   \<and> stored_observation
       (fst (add_errors example_tracker example_world
               [(example_env, ''ARIMA'', Fin 4, None, None),
                (example_env, ''ARIMA'', Fin 6, None, None)]))
       ''ARIMA'' ''2026-11-03''
     = Some (observation 6 ''2026-11-03T00:15:00'')"
  using C5_one_observation_per_key [of example_tracker example_world
      "[(example_env, ''ARIMA'', Fin 4, None, None), (example_env, ''ARIMA'', Fin 6, None, None)]"
      example_env "''ARIMA''" "Fin 6" None None]
  by (simp add: Let_def add_error_history get_model_history_after observations_def
      stored_observation_def)
     (simp add: example_env_def example_tracker_def get_model_history_def dict_get_def
      dict_keys_def call_date_def history_wf_def dict_wf_def new_entry_def observation_def)

subsection \<open>Statistics\<close>

lemma f_le_refl: "x \<noteq> NaN \<Longrightarrow> f_le x x"
  by (cases x) (auto simp: f_le_def)

lemma f_le_trans: "f_le a b \<Longrightarrow> f_le b c \<Longrightarrow> f_le a c"
  by (cases a; cases b; cases c) (auto simp: f_le_def)

lemma f_le_linear: "a \<noteq> NaN \<Longrightarrow> b \<noteq> NaN \<Longrightarrow> \<not> f_lt a b \<Longrightarrow> f_le b a"
  by (cases a; cases b) (auto simp: f_le_def)

lemma f_lt_le: "f_lt a b \<Longrightarrow> f_le a b"
  by (simp add: f_le_def)

lemma py_min_least:
  "NaN \<notin> set (x # xs) \<Longrightarrow>
   foldl (\<lambda>cur y. if f_lt y cur then y else cur) x xs \<in> set (x # xs)
   \<and> (\<forall>e\<in>set (x # xs). f_le (foldl (\<lambda>cur y. if f_lt y cur then y else cur) x xs) e)"
proof (induction xs arbitrary: x)
  case Nil
  then show ?case by (simp add: f_le_refl)
next
  case (Cons a xs)
  let ?m = "if f_lt a x then a else x"
  let ?r = "foldl (\<lambda>cur y. if f_lt y cur then y else cur) ?m xs"
  from Cons.prems have nn: "x \<noteq> NaN" "a \<noteq> NaN" "NaN \<notin> set xs" by auto
  then have "NaN \<notin> set (?m # xs)" by auto
  from Cons.IH [OF this] have mem: "?r \<in> set (?m # xs)"
    and low: "\<forall>e\<in>set (?m # xs). f_le ?r e" by blast+
  from low have rm: "f_le ?r ?m" by simp
  from nn have "f_le ?m x" and "f_le ?m a"
    by (auto simp: f_le_refl f_lt_le f_le_linear)
  with rm have "f_le ?r x" and "f_le ?r a" by (blast intro: f_le_trans)+
  with mem low show ?case by auto
qed

lemma py_max_greatest:
  "NaN \<notin> set (x # xs) \<Longrightarrow>
   foldl (\<lambda>cur y. if f_gt y cur then y else cur) x xs \<in> set (x # xs)
   \<and> (\<forall>e\<in>set (x # xs). f_le e (foldl (\<lambda>cur y. if f_gt y cur then y else cur) x xs))"
proof (induction xs arbitrary: x)
  case Nil
  then show ?case by (simp add: f_le_refl)
next
  case (Cons a xs)
  let ?m = "if f_gt a x then a else x"
  let ?r = "foldl (\<lambda>cur y. if f_gt y cur then y else cur) ?m xs"
  from Cons.prems have nn: "x \<noteq> NaN" "a \<noteq> NaN" "NaN \<notin> set xs" by auto
  then have "NaN \<notin> set (?m # xs)" by auto
  from Cons.IH [OF this] have mem: "?r \<in> set (?m # xs)"
    and up: "\<forall>e\<in>set (?m # xs). f_le e ?r" by blast+
  from up have mr: "f_le ?m ?r" by simp
  from nn have "f_le x ?m" and "f_le a ?m"
    by (auto simp: f_gt_def f_le_refl f_lt_le f_le_linear)
  with mr have "f_le x ?r" and "f_le a ?r" by (blast intro: f_le_trans)+
  with mem up show ?case by auto
qed

lemma f_add_assoc: "f_add (f_add a b) c = f_add a (f_add b c)"
  by (cases a; cases b; cases c) simp_all

lemma f_add_zero: "f_add (Fin 0) x = x"
  by (cases x) simp_all

lemma spec_sum_Cons: "spec_sum (x # xs) = f_add x (spec_sum xs)"
  by (cases x) (auto simp: spec_sum_def)

lemma foldl_f_add: "foldl f_add a es = f_add a (spec_sum es)"
proof (induction es arbitrary: a)
  case Nil
  show ?case by (cases a) (simp_all add: spec_sum_def)
next
  case (Cons x xs)
  then show ?case by (simp add: spec_sum_Cons f_add_assoc)
qed

lemma py_sum_spec: "py_sum es = spec_sum es"
  by (simp add: py_sum_def foldl_f_add f_add_zero)

lemma mean_of_sum:
  "es \<noteq> [] \<Longrightarrow> f_div (py_sum es) (Fin (real (length es))) = Inr (arithmetic_mean es)"
  by (cases "spec_sum es") (simp_all add: py_sum_spec arithmetic_mean_def f_inf_of_sign_def)

lemma arithmetic_mean_finite:
  "arithmetic_mean (map Fin rs) = Fin (sum_list rs / real (length rs))"
proof -
  have "map finite_value (map Fin rs) = rs" by (induction rs) simp_all
  moreover have "NaN \<notin> set (map Fin rs)" "PInf \<notin> set (map Fin rs)" "NInf \<notin> set (map Fin rs)"
    by auto
  ultimately show ?thesis by (simp add: arithmetic_mean_def spec_sum_def del: map_map)
qed

lemma arithmetic_mean_infinite:
  "PInf \<in> set es \<Longrightarrow> NInf \<notin> set es \<Longrightarrow> NaN \<notin> set es \<Longrightarrow> arithmetic_mean es = PInf"
  by (simp add: arithmetic_mean_def spec_sum_def)

lemma statistics_of_nonempty:
  assumes "es \<noteq> []"
  shows "\<exists>mn mx. statistics_of es =
           Inr \<lparr>stat_count = length es, stat_min = Some mn, stat_max = Some mx,
                stat_avg = Some (arithmetic_mean es),
                stat_above_threshold_count = length (filter (\<lambda>e. f_gt e (Fin 5)) es)\<rparr>
         \<and> (NaN \<notin> set es \<longrightarrow>
              mn \<in> set es \<and> (\<forall>e\<in>set es. f_le mn e) \<and> mx \<in> set es \<and> (\<forall>e\<in>set es. f_le e mx))"
proof -
  from assms obtain x xs where es: "es = x # xs" by (cases es) auto
  let ?mn = "foldl (\<lambda>cur y. if f_lt y cur then y else cur) x xs"
  let ?mx = "foldl (\<lambda>cur y. if f_gt y cur then y else cur) x xs"
  note av = mean_of_sum [OF assms]
  have "statistics_of es =
           Inr \<lparr>stat_count = length es, stat_min = Some ?mn, stat_max = Some ?mx,
                stat_avg = Some (arithmetic_mean es),
                stat_above_threshold_count = length (filter (\<lambda>e. f_gt e (Fin 5)) es)\<rparr>"
    using av by (simp add: statistics_of_def es)
  moreover have "NaN \<notin> set es \<longrightarrow>
       ?mn \<in> set es \<and> (\<forall>e\<in>set es. f_le ?mn e) \<and> ?mx \<in> set es \<and> (\<forall>e\<in>set es. f_le e ?mx)"
    using py_min_least [of x xs] py_max_greatest [of x xs] by (simp add: es)
  ultimately show ?thesis by blast
qed

text \<open>
  C7. \<open>get_error_statistics\<close> is computed from what \<open>get_recent_errors\<close> returns and
  from nothing else: two calls for which \<open>get_recent_errors\<close> returns the same list
  return the same statistics. For no recent entry the count is \<open>0\<close>, \<open>min\<close>, \<open>max\<close> and
  \<open>avg\<close> are \<open>None\<close> and \<open>above_threshold_count\<close> is \<open>0\<close>. Otherwise the count is the
  number of entries, \<open>above_threshold_count\<close> the number of those strictly greater than
  \<open>5.0\<close>, and \<open>avg\<close> the arithmetic mean of the entries, for every window: the sum over
  the number for finite entries, \<open>+inf\<close> for a window that holds \<open>+inf\<close> and neither \<open>-inf\<close>
  nor \<open>nan\<close>. When no entry is \<open>nan\<close> (the data model has none), \<open>min\<close> is an entry below
  or equal to all of them and \<open>max\<close> one above or equal to all. For the entries \<open>3.0\<close>,
  \<open>7.0\<close> and \<open>12.0\<close> this gives the count \<open>3\<close>, the minimum \<open>3\<close>, the maximum \<open>12\<close>, the
  average \<open>22/3\<close> and two entries above the threshold.
\<close>

theorem C7_statistics:
  "get_recent_errors env self model_name days = Inr recent \<Longrightarrow>
   numbers (map snd recent) = Inr es \<Longrightarrow>
   (es = [] \<longrightarrow>
      get_error_statistics env self model_name days =
        Inr \<lparr>stat_count = 0, stat_min = None, stat_max = None, stat_avg = None,
             stat_above_threshold_count = 0\<rparr>)
   \<and> (es \<noteq> [] \<longrightarrow>
        (\<exists>mn mx.
           get_error_statistics env self model_name days =
             Inr \<lparr>stat_count = length es, stat_min = Some mn, stat_max = Some mx,
                  stat_avg = Some (arithmetic_mean es),
                  stat_above_threshold_count = length (filter (\<lambda>e. f_gt e (Fin 5)) es)\<rparr>
           \<and> (NaN \<notin> set es \<longrightarrow>
                mn \<in> set es \<and> (\<forall>e\<in>set es. f_le mn e)
                \<and> mx \<in> set es \<and> (\<forall>e\<in>set es. f_le e mx))))
   \<and> (\<forall>rs. es = map Fin rs \<longrightarrow> arithmetic_mean es = Fin (sum_list rs / real (length rs)))
   \<and> (PInf \<in> set es \<and> NInf \<notin> set es \<and> NaN \<notin> set es \<longrightarrow> arithmetic_mean es = PInf)
   \<and> (\<forall>env' self' model_name' days'.
         get_recent_errors env' self' model_name' days' = Inr recent \<longrightarrow>
         get_error_statistics env' self' model_name' days'
         = get_error_statistics env self model_name days)"
proof -
  assume r: "get_recent_errors env self model_name days = Inr recent"
    and n: "numbers (map snd recent) = Inr es"
  from r n have s: "get_error_statistics env self model_name days = statistics_of es"
    by (simp add: get_error_statistics_def)
  have "get_error_statistics env' self' model_name' days'
        = get_error_statistics env self model_name days"
    if "get_recent_errors env' self' model_name' days' = Inr recent"
    for env' self' model_name' days'
    using that r by (simp add: get_error_statistics_def)
  moreover have "es = [] \<longrightarrow> statistics_of es = Inr empty_stats"
    by (simp add: statistics_of_def)
  ultimately show ?thesis
    using statistics_of_nonempty [of es]
    by (simp add: s empty_stats_def arithmetic_mean_finite arithmetic_mean_infinite)
qed

lemma example_recent:
  "get_recent_errors example_env example_tracker ''ARIMA'' 30
   = Inr [(''2026-10-31'', JNum (Fin 3)), (''2026-11-01'', JNum (Fin 7)),
          (''2026-11-02'', JNum (Fin 12))]"
  by (simp add: get_recent_errors_def get_model_history_def example_tracker_def example_env_def
      dict_get_def observation_def)

lemma example_recent_infinite:
  "get_recent_errors example_env example_tracker_infinite ''ARIMA'' 30
   = Inr [(''2026-11-01'', JNum (Fin 3)), (''2026-11-02'', JNum PInf)]"
  by (simp add: get_recent_errors_def get_model_history_def example_tracker_infinite_def
      example_env_def dict_get_def observation_def)

theorem C7_statistics_witness:
  "get_recent_errors example_env example_tracker ''ARIMA'' 30
     = Inr [(''2026-10-31'', JNum (Fin 3)), (''2026-11-01'', JNum (Fin 7)),
            (''2026-11-02'', JNum (Fin 12))]
   \<and> numbers (map snd [(''2026-10-31'', JNum (Fin 3)), (''2026-11-01'', JNum (Fin 7)),
                         (''2026-11-02'', JNum (Fin 12))])
     = Inr (map Fin [3, 7, 12])
   \<and> get_error_statistics example_env example_tracker ''ARIMA'' 30
     = Inr \<lparr>stat_count = 3, stat_min = Some (Fin 3), stat_max = Some (Fin 12),
            stat_avg = Some (Fin (22 / 3)), stat_above_threshold_count = 2\<rparr>
   \<and> get_recent_errors example_env example_tracker ''LSTM'' 30 = Inr []
   \<and> get_error_statistics example_env example_tracker ''LSTM'' 30
     = Inr \<lparr>stat_count = 0, stat_min = None, stat_max = None, stat_avg = None,
            stat_above_threshold_count = 0\<rparr>
   \<and> get_recent_errors example_env example_tracker_infinite ''ARIMA'' 30
     = Inr [(''2026-11-01'', JNum (Fin 3)), (''2026-11-02'', JNum PInf)]
   \<and> numbers (map snd [(''2026-11-01'', JNum (Fin 3)), (''2026-11-02'', JNum PInf)])
     = Inr [Fin 3, PInf]
   \<and> get_error_statistics example_env example_tracker_infinite ''ARIMA'' 30
     = Inr \<lparr>stat_count = 2, stat_min = Some (Fin 3), stat_max = Some PInf,
            stat_avg = Some PInf, stat_above_threshold_count = 1\<rparr>"
proof -
  have l: "get_recent_errors example_env example_tracker ''LSTM'' 30 = Inr []"
    by (simp add: get_recent_errors_def get_model_history_def example_tracker_def dict_get_def)
  have n: "numbers (map snd [(''2026-10-31'', JNum (Fin 3)), (''2026-11-01'', JNum (Fin 7)),
                         (''2026-11-02'', JNum (Fin 12))]) = Inr (map Fin [3, 7, 12])"
    by simp
  have ne: "map Fin [3, 7, 12 :: real] \<noteq> []" by simp
  note t = C7_statistics [OF example_recent n]
  from t [THEN conjunct2, THEN conjunct1, THEN mp, OF ne]
  obtain mn mx where
    g: "get_error_statistics example_env example_tracker ''ARIMA'' 30 =
          Inr \<lparr>stat_count = length (map Fin [3, 7, 12 :: real]),
               stat_min = Some mn, stat_max = Some mx,
               stat_avg = Some (arithmetic_mean (map Fin [3, 7, 12])),
               stat_above_threshold_count =
                 length (filter (\<lambda>e. f_gt e (Fin 5)) (map Fin [3, 7, 12]))\<rparr>"
    and m: "NaN \<notin> set (map Fin [3, 7, 12 :: real]) \<longrightarrow>
              mn \<in> set (map Fin [3, 7, 12]) \<and> (\<forall>e\<in>set (map Fin [3, 7, 12]). f_le mn e)
              \<and> mx \<in> set (map Fin [3, 7, 12]) \<and> (\<forall>e\<in>set (map Fin [3, 7, 12]). f_le e mx)"
    by (elim exE conjE)
  from t [THEN conjunct2, THEN conjunct2, THEN conjunct1, rule_format, OF refl]
  have av: "arithmetic_mean (map Fin [3, 7, 12]) = Fin (22 / 3)" by simp
  from m have "mn \<in> {Fin 3, Fin 7, Fin 12}" and "f_le mn (Fin 3)" by simp_all
  then have mn: "mn = Fin 3" by (auto simp: f_le_def)
  from m have "mx \<in> {Fin 3, Fin 7, Fin 12}" and "f_le (Fin 12) mx" by simp_all
  then have mx: "mx = Fin 12" by (auto simp: f_le_def)
  have a: "get_error_statistics example_env example_tracker ''ARIMA'' 30
     = Inr \<lparr>stat_count = 3, stat_min = Some (Fin 3), stat_max = Some (Fin 12),
            stat_avg = Some (Fin (22 / 3)), stat_above_threshold_count = 2\<rparr>"
    unfolding g av mn mx by (simp add: f_gt_def)
  from C7_statistics [OF l, of "[]"]
  have b: "get_error_statistics example_env example_tracker ''LSTM'' 30
     = Inr \<lparr>stat_count = 0, stat_min = None, stat_max = None, stat_avg = None,
            stat_above_threshold_count = 0\<rparr>"
    by simp
  have n': "numbers (map snd [(''2026-11-01'', JNum (Fin 3)), (''2026-11-02'', JNum PInf)])
            = Inr [Fin 3, PInf]"
    by simp
  have ne': "[Fin 3, PInf] \<noteq> []" by simp
  note t' = C7_statistics [OF example_recent_infinite n']
  from t' [THEN conjunct2, THEN conjunct1, THEN mp, OF ne']
  obtain mn' mx' where
    g': "get_error_statistics example_env example_tracker_infinite ''ARIMA'' 30 =
          Inr \<lparr>stat_count = length [Fin 3, PInf],
               stat_min = Some mn', stat_max = Some mx',
               stat_avg = Some (arithmetic_mean [Fin 3, PInf]),
               stat_above_threshold_count =
                 length (filter (\<lambda>e. f_gt e (Fin 5)) [Fin 3, PInf])\<rparr>"
    and m': "NaN \<notin> set [Fin 3, PInf] \<longrightarrow>
              mn' \<in> set [Fin 3, PInf] \<and> (\<forall>e\<in>set [Fin 3, PInf]. f_le mn' e)
              \<and> mx' \<in> set [Fin 3, PInf] \<and> (\<forall>e\<in>set [Fin 3, PInf]. f_le e mx')"
    by (elim exE conjE)
  from t' [THEN conjunct2, THEN conjunct2, THEN conjunct2, THEN conjunct1]
  have av': "arithmetic_mean [Fin 3, PInf] = PInf" by simp
  from m' have "mn' \<in> {Fin 3, PInf}" and "f_le mn' (Fin 3)" by simp_all
  then have mn': "mn' = Fin 3" by (auto simp: f_le_def)
  from m' have "mx' \<in> {Fin 3, PInf}" and "f_le PInf mx'" by simp_all
  then have mx': "mx' = PInf" by (auto simp: f_le_def)
  have c: "get_error_statistics example_env example_tracker_infinite ''ARIMA'' 30
     = Inr \<lparr>stat_count = 2, stat_min = Some (Fin 3), stat_max = Some PInf,
            stat_avg = Some PInf, stat_above_threshold_count = 1\<rparr>"
    unfolding g' av' mn' mx' by (simp add: f_gt_def)
  from example_recent n a l b example_recent_infinite n' c show ?thesis by simp
qed

subsection \<open>What the notifier touches\<close>

lemma same_but_log_refl: "same_but_log w w"
  by (simp add: same_but_log_def)

lemma same_but_log_trans: "same_but_log w w1 \<Longrightarrow> same_but_log w1 w2 \<Longrightarrow> same_but_log w w2"
  by (simp add: same_but_log_def)

lemma same_but_log_logger: "same_but_log w w1 \<Longrightarrow> same_but_log w (logger level msg w1)"
  by (simp add: same_but_log_def logger_def)

lemma same_but_log_validate:
  "validate_and_fix_token self w = (self', w') \<Longrightarrow> same_but_log w w'"
  by (auto simp: validate_and_fix_token_def Let_def same_but_log_logger same_but_log_refl
      split: list.splits prod.splits if_splits)

lemma same_but_log_init:
  "TelegramNotifier_init env token_arg chat_id_arg timezone_arg w = (r, w') \<Longrightarrow>
   same_but_log w w'"
  by (auto simp: TelegramNotifier_init_def Let_def same_but_log_logger same_but_log_refl
      split: prod.splits if_splits dest: same_but_log_validate)

lemma same_but_log_send_message:
  "send_message env self message w = (delivered, w') \<Longrightarrow> same_but_log w w'"
  by (auto simp: send_message_def Let_def same_but_log_logger same_but_log_refl
      split: http_result.splits)

lemma same_but_log_send_alert:
  "send_alert env self message error_level model_name error_value w = Inr (delivered, w') \<Longrightarrow>
   same_but_log w w'"
  by (auto simp: send_alert_def split: option.splits dest: same_but_log_send_message)

lemma same_but_log_notify:
  "notify env error_pct model_name st w = (sent, w') \<Longrightarrow> same_but_log w w'"
  by (auto simp: notify_def same_but_log_refl split: prod.splits sum.splits if_splits
      dest!: same_but_log_init same_but_log_send_alert intro: same_but_log_trans)

subsection \<open>The singleton\<close>

lemma get_tracker_existing:
  "tracker_var w = Some t \<Longrightarrow> get_tracker env file_arg days_arg w = Inr (t, w)"
  by (simp add: get_tracker_def)

lemma get_tracker_sets:
  "get_tracker env file_arg days_arg w = Inr (t, w') \<Longrightarrow> tracker_var w' = Some t"
  by (auto simp: get_tracker_def split: option.splits sum.splits)

lemma holds_instance_get_tracker:
  "get_tracker env file_arg days_arg w = Inr (t, w') \<Longrightarrow> holds_instance t w'"
  by (simp add: holds_instance_def get_tracker_sets)

lemma tracker_after_fields:
  "oid (tracker_after (add_error env self w m e fd metrics)) = oid self"
  "history_file (tracker_after (add_error env self w m e fd metrics)) = history_file self"
  "max_days (tracker_after (add_error env self w m e fd metrics)) = max_days self"
  by (simp_all add: add_error_history)

lemma save_error_to_history_tracker:
  "get_tracker env None 30 w = Inr (t, w1) \<Longrightarrow>
   tracker_var (snd (save_error_to_history env a p m date e w))
   = Some (tracker_after (add_error env t w1 m e (Some date) (Some (forecast_metrics a p))))"
  by (auto simp: save_error_to_history_def Let_def forecast_metrics_def tracker_after_def
      split: prod.splits sum.splits)


lemma evaluate_tracker_var:
  "evaluate_forecast_and_notify env a p m fd w = Inr (e, sent, w') \<Longrightarrow>
   tracker_var w' = tracker_var (snd (save_error_to_history env a p m (call_date env fd) e w))"
  by (auto simp: evaluate_forecast_and_notify_def Let_def call_date_def same_but_log_def
      split: sum.splits prod.splits dest!: same_but_log_notify)

lemma holds_instance_step: "holds_instance t w \<Longrightarrow> holds_instance t (step c w)"
proof -
  assume h: "holds_instance t w"
  then obtain t' where t': "tracker_var w = Some t'"
    and same: "oid t' = oid t" "history_file t' = history_file t" "max_days t' = max_days t"
    by (auto simp: holds_instance_def split: option.splits)
  have g: "get_tracker env file_arg days_arg w = Inr (t', w)" for env file_arg days_arg
    using t' by (rule get_tracker_existing)
  show ?thesis
  proof (cases c)
    case (Get_tracker env file_arg days_arg)
    with g h show ?thesis by simp
  next
    case (Add_error env m e fd metrics)
    with g same show ?thesis
      by (simp add: Let_def holds_instance_def tracker_after_fields)
  next
    case (Evaluate env a p m fd)
    show ?thesis
    proof (cases "evaluate_forecast_and_notify env a p m fd w")
      case (Inl x)
      with Evaluate h show ?thesis by simp
    next
      case (Inr r)
      obtain e sent w' where r: "r = (e, sent, w')" by (cases r)
      from Inr r have "tracker_var w'
          = tracker_var (snd (save_error_to_history env a p m (call_date env fd) e w))"
        by (simp add: evaluate_tracker_var)
      with save_error_to_history_tracker [OF g] same Evaluate Inr r show ?thesis
        by (simp add: holds_instance_def tracker_after_fields)
    qed
  qed
qed

lemma holds_instance_run: "holds_instance t w \<Longrightarrow> holds_instance t (run calls w)"
  by (induction calls arbitrary: w) (simp_all add: holds_instance_step)

text \<open>
  C10. Once a call of \<open>get_tracker\<close> has returned, every later call, after whatever the
  program did with the module in between and with whatever arguments, returns the
  object of the same identity, with the storage path and the retention window of the
  first call, and changes nothing: no second tracker is built and no file is read.
\<close>

theorem C10_singleton_ignores_later_arguments:
  "get_tracker env file_arg days_arg w0 = Inr (t, w1) \<Longrightarrow>
   \<exists>t2. get_tracker env' file_arg' days_arg' (run calls w1) = Inr (t2, run calls w1)
        \<and> oid t2 = oid t \<and> history_file t2 = history_file t \<and> max_days t2 = max_days t"
proof -
  assume "get_tracker env file_arg days_arg w0 = Inr (t, w1)"
  then have "holds_instance t w1" by (rule holds_instance_get_tracker)
  then have "holds_instance t (run calls w1)" by (rule holds_instance_run)
  then obtain t2 where "tracker_var (run calls w1) = Some t2"
    and "oid t2 = oid t" "history_file t2 = history_file t" "max_days t2 = max_days t"
    by (auto simp: holds_instance_def split: option.splits)
  then show ?thesis by (simp add: get_tracker_existing)
qed

lemma example_first_call:
  "get_tracker example_env None 30 example_world = Inr (example_singleton, example_world_1)"
  by (simp add: get_tracker_def ErrorHistoryTracker_init_def load_history_def logger_def
      example_env_def example_world_def example_singleton_def example_world_1_def
      default_history_file_def)

theorem C10_singleton_ignores_later_arguments_witness:
  "get_tracker example_env None 30 example_world = Inr (example_singleton, example_world_1)
   \<and> instance_of
       (get_tracker example_env_disk_full (Some ''other.json'') 7
          (run [Evaluate example_env (Fin 100) (Fin 92) ''ARIMA'' None,
                Add_error example_env ''LSTM'' (Fin 3) None None] example_world_1))
     = Some (0, ''data/error_history.json'', 30)"
  using C10_singleton_ignores_later_arguments [OF example_first_call,
      of example_env_disk_full "Some ''other.json''" 7
         "[Evaluate example_env (Fin 100) (Fin 92) ''ARIMA'' None,
           Add_error example_env ''LSTM'' (Fin 3) None None]"]
    example_first_call
  by (auto simp: instance_of_def example_singleton_def)

subsection \<open>The alert tiers\<close>

















lemma save_error_to_history_stats:
  "get_tracker env None 30 w = Inr (t, w1) \<Longrightarrow>
   fst (save_error_to_history env a p m date e w)
   = (case get_error_statistics env
             (tracker_after (add_error env t w1 m e (Some date) (Some (forecast_metrics a p))))
             m 7 of
        Inl x \<Rightarrow> default_stats
      | Inr st \<Rightarrow> st)"
  by (auto simp: save_error_to_history_def Let_def forecast_metrics_def tracker_after_def
      split: prod.splits sum.splits)






text \<open>
  A call in which the notification branch is entered for an error of \<open>20\<close> and ends
  before \<open>send_alert\<close>, though the notifier is built: the forecast is of a date outside
  the seven days of the statistics, whose average is zero, and the ratio in the message
  divides by it. The division is not guarded; the exception is caught with the others.
\<close>

lemma example_zero_average:
  "notification_of
     (evaluate_forecast_and_notify example_env (Fin 100) (Fin 80) ''ARIMA'' (Some ''2026-10-20'')
        example_world_zero_average)
   = NotifyFailed ZeroDivisionError"
proof -
  let ?t = "example_singleton\<lparr>history :=
              [(''ARIMA'', [(''2026-11-02'', observation 0 ''2026-11-03T00:10:00'')])]\<rparr>"
  have g: "get_tracker example_env None 30 example_world_zero_average
           = Inr (?t, example_world_zero_average)"
    by (simp add: get_tracker_def example_world_zero_average_def)
  have "get_recent_errors example_env
          (tracker_after (add_error example_env ?t example_world_zero_average ''ARIMA'' (Fin 20)
                            (Some ''2026-10-20'') (Some (forecast_metrics (Fin 100) (Fin 80)))))
          ''ARIMA'' 7
        = Inr [(''2026-11-02'', JNum (Fin 0))]"
    by (simp add: get_recent_errors_def add_error_history get_model_history_after)
       (simp add: example_singleton_def example_env_def get_model_history_def dict_get_def
          call_date_def new_entry_def forecast_metrics_def observation_def)
  then have a: "stat_avg (fst (save_error_to_history example_env (Fin 100) (Fin 80) ''ARIMA''
                                 ''2026-10-20'' (Fin 20) example_world_zero_average))
                = Some (Fin 0)"
    by (simp add: save_error_to_history_stats [OF g] get_error_statistics_def
        statistics_of_def py_sum_def)
  have "fst (notify example_env (Fin 20) ''ARIMA'' st w) = NotifyFailed ZeroDivisionError"
    if "stat_avg st = Some (Fin 0)" for st w
    using that
    by (simp add: notify_def f_gt_def TelegramNotifier_init_def py_or_def truthy_def
        example_env_def trend_message_def split_beta Let_def)
  moreover have "error_pct_of (Fin 100) (Fin 80) = Inr (Fin 20)"
    by (simp add: error_pct_of_def f_sub_def)
  ultimately show ?thesis using a
    by (simp add: notification_of_def evaluate_forecast_and_notify_def Let_def split_beta)
qed

subsection \<open>A failed delivery\<close>

text \<open>
  C1 fails on the code. With the network down, \<open>send_alert\<close> returns \<open>False\<close> and logs the
  failure, and that is all it does: the notifier has no queue, the formatted message is
  kept nowhere (the log records hold the masked URL and the text of the exception), and
  the class has no \<open>process_queue\<close> to deliver it later.
\<close>

theorem C1_failed_send_keeps_no_message:
  "send_alert example_env_network_down example_notifier ''Manual review recommended.'' ''error''
     (Some ''ARIMA'') (Some (Fin 8.75)) example_world
   = Inr (False,
          example_world\<lparr>log_records :=
            [(''debug'',
              ''Sending request to: https://api.telegram.org/bot12345...defgh/sendMessage''),
             (''error'', ''Failed to send Telegram message: Connection refused'')]\<rparr>)"
  by (simp add: send_alert_def send_message_def example_env_network_down_def example_env_def
      example_notifier_def example_world_def logger_def)

end
